theory Spec2Isabelle
  imports Main "HOL-Library.Sublist" "HOL-Library.Char_ord" "HOL-Library.List_Lexorder"
begin

section \<open>Go strings as byte lists\<close>

text \<open>
  A Go \<^verbatim>\<open>string\<close> is a sequence of bytes, and so is a HOL \<^typ>\<open>string\<close>. The functions of
  package \<^verbatim>\<open>strings\<close> that the repository calls are written out below with the argument
  order of the Go library. Case mapping and white space are the ASCII ones: the model
  speaks about ASCII text, which is what manifests, property files and content-type
  tokens hold (Go would also fold and trim a few non-ASCII runes).
\<close>

abbreviation backslash :: char where "backslash \<equiv> CHR 0x5C"
abbreviation LF :: char where "LF \<equiv> CHR 0x0A"
abbreviation CR :: char where "CR \<equiv> CHR 0x0D"

definition hasPrefix :: "string \<Rightarrow> string \<Rightarrow> bool" where
  "hasPrefix s p = prefix p s"

definition hasSuffix :: "string \<Rightarrow> string \<Rightarrow> bool" where
  "hasSuffix s p = suffix p s"

text \<open>\<^verbatim>\<open>strings.Index\<close>: the position of the first occurrence, \<open>None\<close> for Go's \<open>-1\<close>.\<close>

fun indexStr :: "string \<Rightarrow> string \<Rightarrow> nat option" where
  "indexStr [] sub = (if sub = [] then Some 0 else None)"
| "indexStr (c # cs) sub =
     (if prefix sub (c # cs) then Some 0 else map_option Suc (indexStr cs sub))"

definition containsStr :: "string \<Rightarrow> string \<Rightarrow> bool" where
  "containsStr s sub = (indexStr s sub \<noteq> None)"

text \<open>
  \<^verbatim>\<open>strings.ReplaceAll(s, old, new)\<close> replaces the non-overlapping occurrences of
  \<open>old\<close> from left to right. With an empty \<open>old\<close> Go inserts \<open>new\<close> before every
  character and at the end.
\<close>

function replaceNE :: "string \<Rightarrow> string \<Rightarrow> string \<Rightarrow> string" where
  "replaceNE [] old new = []"
| "replaceNE (c # cs) old new =
     (if old \<noteq> [] \<and> prefix old (c # cs)
      then new @ replaceNE (drop (length old) (c # cs)) old new
      else c # replaceNE cs old new)"
  by pat_completeness auto
termination
  by (relation "measure (\<lambda>(s, old, new). length s)") (auto simp: neq_Nil_conv)

definition replaceAll :: "string \<Rightarrow> string \<Rightarrow> string \<Rightarrow> string" where
  "replaceAll s old new =
     (if old = [] then new @ concat (map (\<lambda>c. c # new) s) else replaceNE s old new)"

text \<open>
  \<^verbatim>\<open>strings.Split(s, sep)\<close> cuts at the first occurrence of \<open>sep\<close>, then goes on in the
  rest. With an empty \<open>sep\<close> Go returns the characters one by one.
\<close>

lemma indexStr_bound: "indexStr s sub = Some i \<Longrightarrow> i + length sub \<le> length s"
proof (induction s arbitrary: i)
  case Nil
  then show ?case by (simp split: if_splits)
next
  case (Cons c cs)
  show ?case
  proof (cases "prefix sub (c # cs)")
    case True
    with Cons.prems show ?thesis by (auto dest: prefix_length_le)
  next
    case False
    with Cons.prems obtain j where "indexStr cs sub = Some j" "i = Suc j" by auto
    with Cons.IH show ?thesis by fastforce
  qed
qed

function splitNE :: "string \<Rightarrow> string \<Rightarrow> string list" where
  "splitNE s sep =
     (case indexStr s sep of
        None \<Rightarrow> [s]
      | Some i \<Rightarrow> if sep = [] then [s] else take i s # splitNE (drop (i + length sep) s) sep)"
  by pat_completeness auto
termination
  by (relation "measure (\<lambda>(s, sep). length s)") (auto dest: indexStr_bound simp: neq_Nil_conv)

declare splitNE.simps [simp del]

definition splitStr :: "string \<Rightarrow> string \<Rightarrow> string list" where
  "splitStr s sep = (if sep = [] then map (\<lambda>c. [c]) s else splitNE s sep)"

text \<open>\<^verbatim>\<open>strings.Join\<close>.\<close>

fun joinStr :: "string list \<Rightarrow> string \<Rightarrow> string" where
  "joinStr [] sep = []"
| "joinStr [x] sep = x"
| "joinStr (x # y # ys) sep = x @ sep @ joinStr (y # ys) sep"

text \<open>
  \<^verbatim>\<open>strings.TrimSpace\<close> and \<^verbatim>\<open>strings.ToLower\<close>. A Go string is a string of bytes, and
  these two functions read it as UTF-8: \<^verbatim>\<open>TrimSpace\<close> also removes the white space outside
  ASCII (U+0085, U+00A0 and others) and \<^verbatim>\<open>ToLower\<close> also folds the letters outside ASCII
  (U+0130 to \<open>i\<close>, for one). On a string whose bytes are all below \<open>0x80\<close> they remove the
  six ASCII white space characters and fold \<open>A\<close> to \<open>Z\<close>, which is what \<open>trimSpace\<close> and
  \<open>toLower\<close> below do. The definitions are these functions on such strings only, which
  \<open>isASCII\<close> singles out. The theorems on the content-type resolver and on the manifest
  rewriter, which hold for every string only through what these two functions return,
  carry that hypothesis.
\<close>

definition isASCII :: "string \<Rightarrow> bool" where
  "isASCII s = list_all (\<lambda>c. (of_char c :: nat) < 128) s"

definition isSpace :: "char \<Rightarrow> bool" where
  "isSpace c = (c \<in> set [CHR 0x09, LF, CHR 0x0B, CHR 0x0C, CR, CHR 0x20])"

definition trimSpace :: "string \<Rightarrow> string" where
  "trimSpace s = rev (dropWhile isSpace (rev (dropWhile isSpace s)))"

definition lowerLetters :: string where
  "lowerLetters = ''abcdefghijklmnopqrstuvwxyz''"

definition upperLetters :: string where
  "upperLetters = ''ABCDEFGHIJKLMNOPQRSTUVWXYZ''"

definition digits :: string where
  "digits = ''0123456789''"

definition toLowerChar :: "char \<Rightarrow> char" where
  "toLowerChar c =
     (case map_of (zip upperLetters lowerLetters) c of
        Some l \<Rightarrow> l
      | None \<Rightarrow> c)"

definition toLower :: "string \<Rightarrow> string" where
  "toLower s = map toLowerChar s"

text \<open>\<^verbatim>\<open>strings.SplitN(s, sep, n)\<close> for a non-empty \<open>sep\<close> and \<open>n \<ge> 0\<close>: at most \<open>n\<close> pieces.\<close>

fun splitN :: "string \<Rightarrow> string \<Rightarrow> nat \<Rightarrow> string list" where
  "splitN s sep 0 = []"
| "splitN s sep (Suc 0) = [s]"
| "splitN s sep (Suc (Suc k)) =
     (case indexStr s sep of
        None \<Rightarrow> [s]
      | Some i \<Rightarrow> take i s # splitN (drop (i + length sep) s) sep (Suc k))"

text \<open>\<^verbatim>\<open>strings.TrimPrefix\<close>, \<^verbatim>\<open>strings.TrimSuffix\<close>.\<close>

definition trimPrefix :: "string \<Rightarrow> string \<Rightarrow> string" where
  "trimPrefix s p = (if prefix p s then drop (length p) s else s)"

definition trimSuffix :: "string \<Rightarrow> string \<Rightarrow> string" where
  "trimSuffix s p = (if suffix p s then take (length s - length p) s else s)"

text \<open>
  \<^verbatim>\<open>filepath.Ext\<close>: the suffix that starts at the last dot of the last path element, empty
  when that element has no dot.
\<close>

definition filepathExt :: "string \<Rightarrow> string" where
  "filepathExt path =
     (let final = rev (takeWhile (\<lambda>c. c \<noteq> CHR ''/'') (rev path))
      in if CHR ''.'' \<in> set final
         then CHR ''.'' # rev (takeWhile (\<lambda>c. c \<noteq> CHR ''.'') (rev final))
         else [])"

text \<open>
  \<^verbatim>\<open>filepath.Clean\<close>, \<^verbatim>\<open>filepath.Dir\<close> and \<^verbatim>\<open>filepath.Join\<close> of two elements, with the slash
  as the separator (Unix). \<^verbatim>\<open>Clean\<close> drops the empty elements and the \<open>.\<close> elements; a
  \<open>..\<close> element removes the element before it when that is not \<open>..\<close> itself, is dropped at
  the root, and is kept otherwise; the empty result is \<open>.\<close>. \<open>cleanElems\<close> goes through
  the elements with the kept ones on a stack. \<^verbatim>\<open>Join\<close> ignores the empty elements before
  the first non-empty one and cleans the rest joined by slashes.
\<close>

fun cleanElems :: "bool \<Rightarrow> string list \<Rightarrow> string list \<Rightarrow> string list" where
  "cleanElems rooted [] kept = rev kept"
| "cleanElems rooted (e # es) kept =
     (if e = [] \<or> e = ''.'' then cleanElems rooted es kept
      else if e = ''..''
      then (if kept \<noteq> [] \<and> hd kept \<noteq> ''..'' then cleanElems rooted es (tl kept)
            else if \<not> rooted then cleanElems rooted es (e # kept)
            else cleanElems rooted es kept)
      else cleanElems rooted es (e # kept))"

definition filepathClean :: "string \<Rightarrow> string" where
  "filepathClean path =
     (if path = [] then ''.''
      else (let rooted = (hd path = CHR ''/'');
                cleaned = (if rooted then ''/'' else [])
                          @ joinStr (cleanElems rooted (splitStr path ''/'') []) ''/''
            in if cleaned = [] then ''.'' else cleaned))"

definition filepathDir :: "string \<Rightarrow> string" where
  "filepathDir path = filepathClean (rev (dropWhile (\<lambda>c. c \<noteq> CHR ''/'') (rev path)))"

definition pathJoin :: "string \<Rightarrow> string \<Rightarrow> string" where
  "pathJoin dir name =
     (if dir \<noteq> [] then filepathClean (dir @ ''/'' @ name)
      else if name \<noteq> [] then filepathClean name
      else [])"


section \<open>Content-type resolver (internal/repo/partnerdirectory.go)\<close>

definition defaultBinaryExt :: string where
  "defaultBinaryExt = ''bin''"

definition supportedContentTypes :: "string \<rightharpoonup> bool" where
  "supportedContentTypes =
     map_of [(''xml'', True), (''xsl'', True), (''xsd'', True), (''json'', True),
             (''txt'', True), (''zip'', True), (''gz'', True), (''zlib'', True),
             (''crt'', True)]"

text \<open>A Go map of booleans reads \<open>false\<close> at a missing key.\<close>

definition isValidContentType :: "string \<Rightarrow> bool" where
  "isValidContentType ext =
     (case supportedContentTypes (toLower ext) of Some b \<Rightarrow> b | None \<Rightarrow> False)"

definition isAlphanumeric :: "string \<Rightarrow> bool" where
  "isAlphanumeric s = list_all (\<lambda>c. c \<in> set (lowerLetters @ upperLetters @ digits)) s"

text \<open>
  \<^verbatim>\<open>parseContentType\<close> cuts the parameters off only when the first semicolon is not the
  first character (\<^verbatim>\<open>idx > 0\<close>), and trims the base type then. A base type with a slash
  is split at every slash, and the subtype is taken only when there are exactly two parts.
\<close>

definition parseContentType :: "string \<Rightarrow> string \<times> string" where
  "parseContentType contentType =
     (let baseType =
            (case indexStr contentType '';'' of
               Some idx \<Rightarrow> if idx > 0 then trimSpace (take idx contentType) else contentType
             | None \<Rightarrow> contentType)
      in if containsStr baseType ''/''
         then (let parts = splitStr baseType ''/''
               in if length parts = 2
                  then (let ext = parts ! 1
                        in if ext = ''octet-stream'' then (defaultBinaryExt, contentType)
                           else (ext, contentType))
                  else (baseType, contentType))
         else (baseType, contentType))"

definition getFileExtension :: "string \<Rightarrow> string" where
  "getFileExtension contentType =
     (let ext = fst (parseContentType contentType)
      in if isValidContentType ext then ext
         else if ext \<noteq> [] \<and> length ext \<ge> 2 \<and> length ext \<le> 5 \<and> isAlphanumeric ext then ext
         else defaultBinaryExt)"

text \<open>
  The extension of a content type in the words of the specification: the base type is the
  text before the first semicolon; a base type with a slash gives the part after the
  slash, \<open>octet-stream\<close> gives \<open>bin\<close>; the candidate is taken when it is one of the nine
  recognised names, or when it is alphanumeric and two to five characters long; everything
  else gives \<open>bin\<close>.
\<close>

definition spec_accept :: "string \<Rightarrow> string" where
  "spec_accept cand =
     (if cand \<in> set [''xml'', ''xsl'', ''xsd'', ''json'', ''txt'', ''zip'', ''gz'', ''zlib'', ''crt'']
      then cand
      else if isAlphanumeric cand \<and> 2 \<le> length cand \<and> length cand \<le> 5 then cand
      else ''bin'')"

definition spec_candidate :: "string \<Rightarrow> string" where
  "spec_candidate base =
     (if CHR ''/'' \<in> set base
      then (let sub = tl (dropWhile (\<lambda>c. c \<noteq> CHR ''/'') base)
            in if sub = ''octet-stream'' then ''bin'' else sub)
      else base)"

definition spec_resolveExtension :: "string \<Rightarrow> string" where
  "spec_resolveExtension ct = spec_accept (spec_candidate (takeWhile (\<lambda>c. c \<noteq> CHR '';'') ct))"

text \<open>
  The same with the base type as the code takes it: the text before the first semicolon
  is trimmed of white space, and a content type that has no semicolon or begins with one
  is its own base type, untrimmed.
\<close>

definition spec_resolveExtension_trimmed :: "string \<Rightarrow> string" where
  "spec_resolveExtension_trimmed ct =
     spec_accept (spec_candidate
       (if CHR '';'' \<in> set ct \<and> \<not> prefix '';'' ct
        then trimSpace (takeWhile (\<lambda>c. c \<noteq> CHR '';'') ct)
        else ct))"

section \<open>Property codec (internal/repo/partnerdirectory.go)\<close>

text \<open>
  \<^verbatim>\<open>escapePropertyValue\<close> rewrites backslash, then newline, then carriage return;
  \<^verbatim>\<open>unescapePropertyValue\<close> rewrites the two-character sequences backslash-n and
  backslash-r first and the doubled backslash last, each with one \<^verbatim>\<open>ReplaceAll\<close> pass over
  the whole value.
\<close>

definition escapePropertyValue :: "string \<Rightarrow> string" where
  "escapePropertyValue v =
     (let v1 = replaceAll v [backslash] [backslash, backslash];
          v2 = replaceAll v1 [LF] [backslash, CHR ''n''];
          v3 = replaceAll v2 [CR] [backslash, CHR ''r'']
      in v3)"

definition unescapePropertyValue :: "string \<Rightarrow> string" where
  "unescapePropertyValue v =
     (let v1 = replaceAll v [backslash, CHR ''n''] [LF];
          v2 = replaceAll v1 [backslash, CHR ''r''] [CR];
          v3 = replaceAll v2 [backslash, backslash] [backslash]
      in v3)"

section \<open>Partner Directory parameters and the local repository\<close>

text \<open>
  \<^verbatim>\<open>api.StringParameter\<close> and \<^verbatim>\<open>api.BinaryParameter\<close>, with the fields the
  synchroniser reads. The Go field \<^verbatim>\<open>ID\<close> of a parameter is \<open>ParamID\<close> here (the name
  \<open>ID\<close> is kept for \<^verbatim>\<open>models.Package\<close>). A binary parameter has the three fields of a
  string parameter and its content type; its value is base64 text.
\<close>

record StringParameter =
  Pid :: string
  ParamID :: string
  Value :: string

record BinaryParameter = StringParameter +
  ContentType :: string

text \<open>
  The directory tree under \<^verbatim>\<open>ResourcesPath\<close>, as far as the repository looks at it. A
  file either has bytes or fails to be read with an error text. An entry of a
  \<^verbatim>\<open>Binary\<close> directory is a regular file or a subdirectory. Lists of entries are in the
  order in which \<^verbatim>\<open>os.ReadDir\<close> returns them.
\<close>

datatype localFile = File string | Unreadable string

datatype entry = RegularFile localFile | SubDir

record BinaryDir =
  readDirError :: "string option"
  entries :: "(string \<times> entry) list"

record PidDir =
  stringProperties :: "localFile option"
  binaryDir :: "BinaryDir option"

datatype rootEntry = PidDirectory PidDir | PlainFile

datatype resources =
    ResourcesMissing
  | ResourcesError string
  | Resources "(string \<times> rootEntry) list"

definition stringPropertiesFile :: string where
  "stringPropertiesFile = ''String.properties''"

definition binaryDirName :: string where
  "binaryDirName = ''Binary''"

definition metadataFileName :: string where
  "metadataFileName = ''_metadata.json''"

text \<open>\<^verbatim>\<open>GetLocalPIDs\<close>: the names of the subdirectories, sorted.\<close>

definition GetLocalPIDs :: "resources \<Rightarrow> string + string list" where
  "GetLocalPIDs pd =
     (case pd of
        ResourcesMissing \<Rightarrow> Inr []
      | ResourcesError e \<Rightarrow> Inl (''failed to read resources directory: '' @ e)
      | Resources es \<Rightarrow>
          Inr (sort (map fst (filter (\<lambda>(n, e). case e of PidDirectory d \<Rightarrow> True | PlainFile \<Rightarrow> False) es))))"

text \<open>The directory of a partner, when \<^verbatim>\<open>ResourcesPath/pid\<close> is a directory.\<close>

definition pidDir :: "resources \<Rightarrow> string \<Rightarrow> PidDir option" where
  "pidDir pd pid =
     (case pd of
        Resources es \<Rightarrow>
          (case map_of es pid of Some (PidDirectory d) \<Rightarrow> Some d | _ \<Rightarrow> None)
      | _ \<Rightarrow> None)"

definition removeFileExtension :: "string \<Rightarrow> string" where
  "removeFileExtension filename =
     (let ext = filepathExt filename
      in if ext \<noteq> [] then trimSuffix filename ext else filename)"

text \<open>
  \<^verbatim>\<open>readPropertiesFile\<close>: the lines are cut at \<^verbatim>\<open>\n\<close> and trimmed; blank lines and
  comments are skipped; a line with \<^verbatim>\<open>=\<close> gives a parameter whose value is unescaped.
\<close>

fun readPropertiesLines :: "string \<Rightarrow> string list \<Rightarrow> StringParameter list" where
  "readPropertiesLines pid [] = []"
| "readPropertiesLines pid (l # ls) =
     (let line = trimSpace l
      in if line = [] \<or> hasPrefix line ''#'' then readPropertiesLines pid ls
         else (let parts = splitN line ''='' 2
               in if length parts = 2
                  then \<lparr>Pid = pid, ParamID = parts ! 0, Value = unescapePropertyValue (parts ! 1)\<rparr>
                       # readPropertiesLines pid ls
                  else readPropertiesLines pid ls))"

definition readPropertiesFile :: "localFile \<Rightarrow> string \<Rightarrow> string + StringParameter list" where
  "readPropertiesFile f pid =
     (case f of
        Unreadable e \<Rightarrow> Inl (''failed to read properties file: '' @ e)
      | File data \<Rightarrow> Inr (readPropertiesLines pid (splitStr data [LF])))"

definition ReadStringParameters :: "resources \<Rightarrow> string \<Rightarrow> string + StringParameter list" where
  "ReadStringParameters pd pid =
     (case pidDir pd pid of
        None \<Rightarrow> Inr []
      | Some d \<Rightarrow>
          (case stringProperties d of
             None \<Rightarrow> Inr []
           | Some f \<Rightarrow> readPropertiesFile f pid))"

text \<open>
  \<^verbatim>\<open>ReadBinaryParameters\<close>. The JSON decoder of the sidecar and the base64 encoder are
  library code and are parameters: \<open>parseJSON\<close> gives the decoded object or \<open>None\<close> for
  text that is not a JSON object of strings. The error of a failed decoding is the text
  \<open>failed to parse metadata\<close>; the decoder's own message, which the source appends after a
  colon, is left out. The loop goes through the entries in order;
  \<open>seen\<close> is the set \<^verbatim>\<open>seenParams\<close>. A name that the sidecar lacks reads as the empty
  string from the Go map.
\<close>

fun readBinaryEntries ::
  "(string \<Rightarrow> string) \<Rightarrow> (string \<rightharpoonup> string) \<Rightarrow> string \<Rightarrow> string set \<Rightarrow>
   (string \<times> entry) list \<Rightarrow> BinaryParameter list" where
  "readBinaryEntries b64 metadata pid seen [] = []"
| "readBinaryEntries b64 metadata pid seen ((name, e) # es) =
     (case e of
        SubDir \<Rightarrow> readBinaryEntries b64 metadata pid seen es
      | RegularFile f \<Rightarrow>
          if name = metadataFileName then readBinaryEntries b64 metadata pid seen es
          else (let paramID = removeFileExtension name
                in if paramID \<in> seen then readBinaryEntries b64 metadata pid seen es
                   else (case f of
                           Unreadable err \<Rightarrow>
                             readBinaryEntries b64 metadata pid (insert paramID seen) es
                         | File data \<Rightarrow>
                             (let encoded = b64 data;
                                  ct0 = (case metadata name of Some c \<Rightarrow> c | None \<Rightarrow> []);
                                  contentType =
                                    (if ct0 = []
                                     then (let ext = trimPrefix (filepathExt name) ''.''
                                           in if ext = [] then defaultBinaryExt else ext)
                                     else ct0)
                              in \<lparr>Pid = pid, ParamID = paramID, Value = encoded,
                                   ContentType = contentType\<rparr>
                                 # readBinaryEntries b64 metadata pid (insert paramID seen) es))))"

definition ReadBinaryParameters ::
  "(string \<Rightarrow> (string \<rightharpoonup> string) option) \<Rightarrow> (string \<Rightarrow> string) \<Rightarrow> resources \<Rightarrow> string \<Rightarrow>
   string + BinaryParameter list" where
  "ReadBinaryParameters parseJSON b64 pd pid =
     (case pidDir pd pid of
        None \<Rightarrow> Inr []
      | Some d \<Rightarrow>
          (case binaryDir d of
             None \<Rightarrow> Inr []
           | Some bd \<Rightarrow>
               (let sidecar =
                      (case map_of (entries bd) metadataFileName of
                         Some (RegularFile (Unreadable e)) \<Rightarrow>
                           Inl (''failed to read metadata file: '' @ e)
                       | Some (RegularFile (File data)) \<Rightarrow>
                           (case parseJSON data of
                              None \<Rightarrow> Inl ''failed to parse metadata''
                            | Some m \<Rightarrow> Inr m)
                       | _ \<Rightarrow> Inr Map.empty)
                in case sidecar of
                     Inl e \<Rightarrow> Inl e
                   | Inr metadata \<Rightarrow>
                       (case readDirError bd of
                          Some e \<Rightarrow> Inl (''failed to read binary directory: '' @ e)
                        | None \<Rightarrow> Inr (readBinaryEntries b64 metadata pid {} (entries bd))))))"

text \<open>
  \<^verbatim>\<open>saveBinaryParameterToFile\<close> and \<^verbatim>\<open>updateMetadataFile\<close> build the file name with the
  same four lines. The files of a \<^verbatim>\<open>Binary\<close> directory are a map from names to bytes
  here, and the sidecar is the decoded object; \<open>b64decode\<close> is the library's decoder and
  \<open>writeError\<close> says for which names \<^verbatim>\<open>os.WriteFile\<close> fails.
\<close>

definition saveBinaryParameterToFile ::
  "(string \<Rightarrow> string option) \<Rightarrow> (string \<Rightarrow> string option) \<Rightarrow> (string \<rightharpoonup> string) \<Rightarrow>
   BinaryParameter \<Rightarrow> string + (string \<rightharpoonup> string)" where
  "saveBinaryParameterToFile b64decode writeError files param =
     (case b64decode (Value param) of
        None \<Rightarrow> Inl ''failed to decode base64''
      | Some data \<Rightarrow>
          (let ext = getFileExtension (ContentType param);
               filename = (if ext \<noteq> [] \<and> \<not> hasSuffix (toLower (ParamID param)) (''.'' @ ext)
                           then ParamID param @ ''.'' @ ext
                           else ParamID param)
           in case writeError filename of
                Some e \<Rightarrow> Inl (''failed to write binary file: '' @ e)
              | None \<Rightarrow> Inr (files(filename \<mapsto> data))))"

definition updateMetadataFile ::
  "(string \<rightharpoonup> string) \<Rightarrow> string \<Rightarrow> string \<Rightarrow> (string \<rightharpoonup> string)" where
  "updateMetadataFile metadata paramID contentType =
     (if \<not> containsStr contentType '';'' then metadata
      else (let ext = getFileExtension contentType;
                filename = (if ext \<noteq> [] \<and> \<not> hasSuffix (toLower paramID) (''.'' @ ext)
                            then paramID @ ''.'' @ ext
                            else paramID)
            in metadata(filename \<mapsto> contentType)))"

section \<open>The tenant's Partner Directory API (internal/api)\<close>

text \<open>
  The client methods of \<^verbatim>\<open>api.PartnerDirectory\<close> send one HTTP request each. The tenant
  is outside the repository: it is any function from a call and its own state to a
  response and a new state. A response of the wrong shape is what the client reports as a
  decoding failure. Every call that is sent is appended to the list of issued calls.
\<close>

datatype apiCall =
    GetStringParametersCall string
  | GetBinaryParametersCall string
  | GetStringParameterCall string string
  | GetBinaryParameterCall string string
  | CreateStringParameterCall StringParameter
  | UpdateStringParameterCall StringParameter
  | DeleteStringParameterCall string string
  | CreateBinaryParameterCall BinaryParameter
  | UpdateBinaryParameterCall BinaryParameter
  | DeleteBinaryParameterCall string string

datatype apiResponse =
    Failed string
  | Done
  | StringList "StringParameter list"
  | BinaryList "BinaryParameter list"
  | StringItem "StringParameter option"
  | BinaryItem "BinaryParameter option"

type_synonym 'w tenant = "apiCall \<Rightarrow> 'w \<Rightarrow> apiResponse \<times> 'w"

type_synonym 'w session = "'w \<times> apiCall list"

definition send :: "'w tenant \<Rightarrow> apiCall \<Rightarrow> 'w session \<Rightarrow> apiResponse \<times> 'w session" where
  "send t c s = (case t c (fst s) of (r, w') \<Rightarrow> (r, (w', snd s @ [c])))"

definition decodeFailure :: string where
  "decodeFailure = ''failed to decode response''"

definition GetStringParameters ::
  "'w tenant \<Rightarrow> string \<Rightarrow> 'w session \<Rightarrow> (string + StringParameter list) \<times> 'w session" where
  "GetStringParameters t selectFields s =
     (case send t (GetStringParametersCall selectFields) s of
        (StringList ps, s') \<Rightarrow> (Inr ps, s')
      | (Failed e, s') \<Rightarrow> (Inl e, s')
      | (_, s') \<Rightarrow> (Inl decodeFailure, s'))"

definition GetBinaryParameters ::
  "'w tenant \<Rightarrow> string \<Rightarrow> 'w session \<Rightarrow> (string + BinaryParameter list) \<times> 'w session" where
  "GetBinaryParameters t selectFields s =
     (case send t (GetBinaryParametersCall selectFields) s of
        (BinaryList ps, s') \<Rightarrow> (Inr ps, s')
      | (Failed e, s') \<Rightarrow> (Inl e, s')
      | (_, s') \<Rightarrow> (Inl decodeFailure, s'))"

definition GetStringParameter ::
  "'w tenant \<Rightarrow> string \<Rightarrow> string \<Rightarrow> 'w session \<Rightarrow> (string + StringParameter option) \<times> 'w session" where
  "GetStringParameter t pid ident s =
     (case send t (GetStringParameterCall pid ident) s of
        (StringItem r, s') \<Rightarrow> (Inr r, s')
      | (Failed e, s') \<Rightarrow> (Inl e, s')
      | (_, s') \<Rightarrow> (Inl decodeFailure, s'))"

definition GetBinaryParameter ::
  "'w tenant \<Rightarrow> string \<Rightarrow> string \<Rightarrow> 'w session \<Rightarrow> (string + BinaryParameter option) \<times> 'w session" where
  "GetBinaryParameter t pid ident s =
     (case send t (GetBinaryParameterCall pid ident) s of
        (BinaryItem r, s') \<Rightarrow> (Inr r, s')
      | (Failed e, s') \<Rightarrow> (Inl e, s')
      | (_, s') \<Rightarrow> (Inl decodeFailure, s'))"

text \<open>The modifying calls return an error or nothing (\<open>None\<close> is Go's \<open>nil\<close> error).\<close>

definition modify :: "'w tenant \<Rightarrow> apiCall \<Rightarrow> 'w session \<Rightarrow> string option \<times> 'w session" where
  "modify t c s =
     (case send t c s of
        (Failed e, s') \<Rightarrow> (Some e, s')
      | (_, s') \<Rightarrow> (None, s'))"

definition CreateStringParameter ::
  "'w tenant \<Rightarrow> StringParameter \<Rightarrow> 'w session \<Rightarrow> string option \<times> 'w session" where
  "CreateStringParameter t p = modify t (CreateStringParameterCall p)"

definition UpdateStringParameter ::
  "'w tenant \<Rightarrow> StringParameter \<Rightarrow> 'w session \<Rightarrow> string option \<times> 'w session" where
  "UpdateStringParameter t p = modify t (UpdateStringParameterCall p)"

definition DeleteStringParameter ::
  "'w tenant \<Rightarrow> string \<Rightarrow> string \<Rightarrow> 'w session \<Rightarrow> string option \<times> 'w session" where
  "DeleteStringParameter t pid ident = modify t (DeleteStringParameterCall pid ident)"

definition CreateBinaryParameter ::
  "'w tenant \<Rightarrow> BinaryParameter \<Rightarrow> 'w session \<Rightarrow> string option \<times> 'w session" where
  "CreateBinaryParameter t p = modify t (CreateBinaryParameterCall p)"

definition UpdateBinaryParameter ::
  "'w tenant \<Rightarrow> BinaryParameter \<Rightarrow> 'w session \<Rightarrow> string option \<times> 'w session" where
  "UpdateBinaryParameter t p = modify t (UpdateBinaryParameterCall p)"

definition DeleteBinaryParameter ::
  "'w tenant \<Rightarrow> string \<Rightarrow> string \<Rightarrow> 'w session \<Rightarrow> string option \<times> 'w session" where
  "DeleteBinaryParameter t pid ident = modify t (DeleteBinaryParameterCall pid ident)"

record BatchResult =
  Created :: "string list"
  Updated :: "string list"
  Unchanged :: "string list"
  Deleted :: "string list"
  Errors :: "string list"

section \<open>Partner Directory deploy (internal/cmd/pd_deploy.go)\<close>

definition contains :: "string list \<Rightarrow> string \<Rightarrow> bool" where
  "contains slice str = list_ex (\<lambda>s. s = str) slice"

definition filterPIDs :: "string list \<Rightarrow> string list \<Rightarrow> string list" where
  "filterPIDs pids flt = (if length flt = 0 then pids else filter (\<lambda>pid. contains flt pid) pids)"

text \<open>
  The loop of \<^verbatim>\<open>deployBinaryParameters\<close> over the parameters of one partner. An existing
  remote parameter is updated when \<open>replace\<close> is set and its value differs from the local
  one; the content types are not compared.
\<close>

fun deployBinaryParams ::
  "'w tenant \<Rightarrow> bool \<Rightarrow> bool \<Rightarrow> BinaryParameter list \<Rightarrow> BatchResult \<Rightarrow> 'w session \<Rightarrow>
   BatchResult \<times> 'w session" where
  "deployBinaryParams t replace dryRun [] results s = (results, s)"
| "deployBinaryParams t replace dryRun (param # params) results s =
     (let key = Pid param @ ''/'' @ ParamID param
      in case GetBinaryParameter t (Pid param) (ParamID param) s of
           (Inl err, s1) \<Rightarrow>
             deployBinaryParams t replace dryRun params
               (results\<lparr>Errors := Errors results @ [key @ '': '' @ err]\<rparr>) s1
         | (Inr existing, s1) \<Rightarrow>
             if dryRun then
               (case existing of
                  None \<Rightarrow>
                    deployBinaryParams t replace dryRun params
                      (results\<lparr>Created := Created results @ [key]\<rparr>) s1
                | Some ex \<Rightarrow>
                    if replace \<and> Value ex \<noteq> Value param
                    then deployBinaryParams t replace dryRun params
                           (results\<lparr>Updated := Updated results @ [key]\<rparr>) s1
                    else deployBinaryParams t replace dryRun params
                           (results\<lparr>Unchanged := Unchanged results @ [key]\<rparr>) s1)
             else
               (case existing of
                  None \<Rightarrow>
                    (case CreateBinaryParameter t param s1 of
                       (Some err, s2) \<Rightarrow>
                         deployBinaryParams t replace dryRun params
                           (results\<lparr>Errors := Errors results @ [key @ '': '' @ err]\<rparr>) s2
                     | (None, s2) \<Rightarrow>
                         deployBinaryParams t replace dryRun params
                           (results\<lparr>Created := Created results @ [key]\<rparr>) s2)
                | Some ex \<Rightarrow>
                    if replace \<and> Value ex \<noteq> Value param
                    then (case UpdateBinaryParameter t param s1 of
                            (Some err, s2) \<Rightarrow>
                              deployBinaryParams t replace dryRun params
                                (results\<lparr>Errors := Errors results @ [key @ '': '' @ err]\<rparr>) s2
                          | (None, s2) \<Rightarrow>
                              deployBinaryParams t replace dryRun params
                                (results\<lparr>Updated := Updated results @ [key]\<rparr>) s2)
                    else deployBinaryParams t replace dryRun params
                           (results\<lparr>Unchanged := Unchanged results @ [key]\<rparr>) s1))"

fun deployStringParams ::
  "'w tenant \<Rightarrow> bool \<Rightarrow> bool \<Rightarrow> StringParameter list \<Rightarrow> BatchResult \<Rightarrow> 'w session \<Rightarrow>
   BatchResult \<times> 'w session" where
  "deployStringParams t replace dryRun [] results s = (results, s)"
| "deployStringParams t replace dryRun (param # params) results s =
     (let key = Pid param @ ''/'' @ ParamID param
      in case GetStringParameter t (Pid param) (ParamID param) s of
           (Inl err, s1) \<Rightarrow>
             deployStringParams t replace dryRun params
               (results\<lparr>Errors := Errors results @ [key @ '': '' @ err]\<rparr>) s1
         | (Inr existing, s1) \<Rightarrow>
             if dryRun then
               (case existing of
                  None \<Rightarrow>
                    deployStringParams t replace dryRun params
                      (results\<lparr>Created := Created results @ [key]\<rparr>) s1
                | Some ex \<Rightarrow>
                    if replace \<and> Value ex \<noteq> Value param
                    then deployStringParams t replace dryRun params
                           (results\<lparr>Updated := Updated results @ [key]\<rparr>) s1
                    else deployStringParams t replace dryRun params
                           (results\<lparr>Unchanged := Unchanged results @ [key]\<rparr>) s1)
             else
               (case existing of
                  None \<Rightarrow>
                    (case CreateStringParameter t param s1 of
                       (Some err, s2) \<Rightarrow>
                         deployStringParams t replace dryRun params
                           (results\<lparr>Errors := Errors results @ [key @ '': '' @ err]\<rparr>) s2
                     | (None, s2) \<Rightarrow>
                         deployStringParams t replace dryRun params
                           (results\<lparr>Created := Created results @ [key]\<rparr>) s2)
                | Some ex \<Rightarrow>
                    if replace \<and> Value ex \<noteq> Value param
                    then (case UpdateStringParameter t param s1 of
                            (Some err, s2) \<Rightarrow>
                              deployStringParams t replace dryRun params
                                (results\<lparr>Errors := Errors results @ [key @ '': '' @ err]\<rparr>) s2
                          | (None, s2) \<Rightarrow>
                              deployStringParams t replace dryRun params
                                (results\<lparr>Updated := Updated results @ [key]\<rparr>) s2)
                    else deployStringParams t replace dryRun params
                           (results\<lparr>Unchanged := Unchanged results @ [key]\<rparr>) s1))"

definition emptyResult :: BatchResult where
  "emptyResult = \<lparr>Created = [], Updated = [], Unchanged = [], Deleted = [], Errors = []\<rparr>"

text \<open>The loops over the local partners; a partner whose files fail to be read is skipped.\<close>

fun deployBinaryPIDs ::
  "'w tenant \<Rightarrow> (string \<Rightarrow> (string \<rightharpoonup> string) option) \<Rightarrow> (string \<Rightarrow> string) \<Rightarrow> resources \<Rightarrow>
   bool \<Rightarrow> bool \<Rightarrow> string list \<Rightarrow> BatchResult \<Rightarrow> 'w session \<Rightarrow> BatchResult \<times> 'w session" where
  "deployBinaryPIDs t parseJSON b64 pd replace dryRun [] results s = (results, s)"
| "deployBinaryPIDs t parseJSON b64 pd replace dryRun (pid # pids) results s =
     (case ReadBinaryParameters parseJSON b64 pd pid of
        Inl err \<Rightarrow>
          deployBinaryPIDs t parseJSON b64 pd replace dryRun pids
            (results\<lparr>Errors := Errors results @ [''Failed to read '' @ pid @ '': '' @ err]\<rparr>) s
      | Inr parameters \<Rightarrow>
          (case deployBinaryParams t replace dryRun parameters results s of
             (results', s') \<Rightarrow> deployBinaryPIDs t parseJSON b64 pd replace dryRun pids results' s'))"

fun deployStringPIDs ::
  "'w tenant \<Rightarrow> resources \<Rightarrow> bool \<Rightarrow> bool \<Rightarrow> string list \<Rightarrow> BatchResult \<Rightarrow> 'w session \<Rightarrow>
   BatchResult \<times> 'w session" where
  "deployStringPIDs t pd replace dryRun [] results s = (results, s)"
| "deployStringPIDs t pd replace dryRun (pid # pids) results s =
     (case ReadStringParameters pd pid of
        Inl err \<Rightarrow>
          deployStringPIDs t pd replace dryRun pids
            (results\<lparr>Errors := Errors results @ [''Failed to read '' @ pid @ '': '' @ err]\<rparr>) s
      | Inr parameters \<Rightarrow>
          (case deployStringParams t replace dryRun parameters results s of
             (results', s') \<Rightarrow> deployStringPIDs t pd replace dryRun pids results' s'))"

definition deployStringParameters ::
  "'w tenant \<Rightarrow> resources \<Rightarrow> bool \<Rightarrow> bool \<Rightarrow> string list \<Rightarrow> 'w session \<Rightarrow>
   (string + BatchResult) \<times> 'w session" where
  "deployStringParameters t pd replace dryRun pidsFilter s =
     (case GetLocalPIDs pd of
        Inl err \<Rightarrow> (Inl err, s)
      | Inr localPIDs \<Rightarrow>
          (let localPIDs' = (if length pidsFilter > 0 then filterPIDs localPIDs pidsFilter
                             else localPIDs)
           in case deployStringPIDs t pd replace dryRun localPIDs' emptyResult s of
                (results, s') \<Rightarrow> (Inr results, s')))"

definition deployBinaryParameters ::
  "'w tenant \<Rightarrow> (string \<Rightarrow> (string \<rightharpoonup> string) option) \<Rightarrow> (string \<Rightarrow> string) \<Rightarrow> resources \<Rightarrow>
   bool \<Rightarrow> bool \<Rightarrow> string list \<Rightarrow> 'w session \<Rightarrow> (string + BatchResult) \<times> 'w session" where
  "deployBinaryParameters t parseJSON b64 pd replace dryRun pidsFilter s =
     (case GetLocalPIDs pd of
        Inl err \<Rightarrow> (Inl err, s)
      | Inr localPIDs \<Rightarrow>
          (let localPIDs' = (if length pidsFilter > 0 then filterPIDs localPIDs pidsFilter
                             else localPIDs)
           in case deployBinaryPIDs t parseJSON b64 pd replace dryRun localPIDs' emptyResult s of
                (results, s') \<Rightarrow> (Inr results, s')))"

text \<open>
  \<^verbatim>\<open>deleteRemoteEntriesNotInLocal\<close>. First the local parameters of the managed partners
  are loaded into two maps from partner IDs to sets of parameter IDs. A partner whose
  files fail to be read gets no entry (the failure is logged as a warning), and the test
  before a delete, \<^verbatim>\<open>local[pid] == nil || !local[pid][id]\<close>, holds for every remote
  parameter of such a partner.
\<close>

definition addLocalIDs :: "(string \<rightharpoonup> string set) \<Rightarrow> string \<Rightarrow> string list \<Rightarrow> (string \<rightharpoonup> string set)" where
  "addLocalIDs m pid ids =
     m(pid \<mapsto> (case m pid of None \<Rightarrow> {} | Some known \<Rightarrow> known) \<union> set ids)"

fun loadLocalParams ::
  "(string \<Rightarrow> (string \<rightharpoonup> string) option) \<Rightarrow> (string \<Rightarrow> string) \<Rightarrow> resources \<Rightarrow> string list \<Rightarrow>
   (string \<rightharpoonup> string set) \<times> (string \<rightharpoonup> string set) \<Rightarrow>
   (string \<rightharpoonup> string set) \<times> (string \<rightharpoonup> string set)" where
  "loadLocalParams parseJSON b64 pd [] m = m"
| "loadLocalParams parseJSON b64 pd (pid # pids) (localStringParams, localBinaryParams) =
     (let localStringParams' =
            (case ReadStringParameters pd pid of
               Inl err \<Rightarrow> localStringParams
             | Inr stringParams \<Rightarrow> addLocalIDs localStringParams pid (map ParamID stringParams));
          localBinaryParams' =
            (case ReadBinaryParameters parseJSON b64 pd pid of
               Inl err \<Rightarrow> localBinaryParams
             | Inr binaryParams \<Rightarrow> addLocalIDs localBinaryParams pid (map ParamID binaryParams))
      in loadLocalParams parseJSON b64 pd pids (localStringParams', localBinaryParams'))"

definition notInLocal :: "(string \<rightharpoonup> string set) \<Rightarrow> string \<Rightarrow> string \<Rightarrow> bool" where
  "notInLocal m pid ident = (case m pid of None \<Rightarrow> True | Some known \<Rightarrow> ident \<notin> known)"

fun deleteStringParams ::
  "'w tenant \<Rightarrow> string list \<Rightarrow> (string \<rightharpoonup> string set) \<Rightarrow> StringParameter list \<Rightarrow> BatchResult \<Rightarrow>
   'w session \<Rightarrow> BatchResult \<times> 'w session" where
  "deleteStringParams t managedPIDs localStringParams [] results s = (results, s)"
| "deleteStringParams t managedPIDs localStringParams (param # params) results s =
     (if \<not> contains managedPIDs (Pid param)
      then deleteStringParams t managedPIDs localStringParams params results s
      else if notInLocal localStringParams (Pid param) (ParamID param)
      then (let key = Pid param @ ''/'' @ ParamID param
            in case DeleteStringParameter t (Pid param) (ParamID param) s of
                 (Some err, s') \<Rightarrow>
                   deleteStringParams t managedPIDs localStringParams params
                     (results\<lparr>Errors := Errors results
                                @ [''Failed to delete string '' @ key @ '': '' @ err]\<rparr>) s'
               | (None, s') \<Rightarrow>
                   deleteStringParams t managedPIDs localStringParams params
                     (results\<lparr>Deleted := Deleted results @ [key]\<rparr>) s')
      else deleteStringParams t managedPIDs localStringParams params results s)"

fun deleteBinaryParams ::
  "'w tenant \<Rightarrow> string list \<Rightarrow> (string \<rightharpoonup> string set) \<Rightarrow> BinaryParameter list \<Rightarrow> BatchResult \<Rightarrow>
   'w session \<Rightarrow> BatchResult \<times> 'w session" where
  "deleteBinaryParams t managedPIDs localBinaryParams [] results s = (results, s)"
| "deleteBinaryParams t managedPIDs localBinaryParams (param # params) results s =
     (if \<not> contains managedPIDs (Pid param)
      then deleteBinaryParams t managedPIDs localBinaryParams params results s
      else if notInLocal localBinaryParams (Pid param) (ParamID param)
      then (let key = Pid param @ ''/'' @ ParamID param
            in case DeleteBinaryParameter t (Pid param) (ParamID param) s of
                 (Some err, s') \<Rightarrow>
                   deleteBinaryParams t managedPIDs localBinaryParams params
                     (results\<lparr>Errors := Errors results
                                @ [''Failed to delete binary '' @ key @ '': '' @ err]\<rparr>) s'
               | (None, s') \<Rightarrow>
                   deleteBinaryParams t managedPIDs localBinaryParams params
                     (results\<lparr>Deleted := Deleted results @ [key]\<rparr>) s')
      else deleteBinaryParams t managedPIDs localBinaryParams params results s)"

definition deleteRemoteEntriesNotInLocal ::
  "'w tenant \<Rightarrow> (string \<Rightarrow> (string \<rightharpoonup> string) option) \<Rightarrow> (string \<Rightarrow> string) \<Rightarrow> resources \<Rightarrow>
   string list \<Rightarrow> 'w session \<Rightarrow> (string + BatchResult) \<times> 'w session" where
  "deleteRemoteEntriesNotInLocal t parseJSON b64 pd managedPIDs s =
     (case loadLocalParams parseJSON b64 pd managedPIDs (Map.empty, Map.empty) of
        (localStringParams, localBinaryParams) \<Rightarrow>
          (case GetStringParameters t ''Pid,Id'' s of
             (Inl err, s1) \<Rightarrow> (Inl (''failed to get remote string parameters: '' @ err), s1)
           | (Inr remoteStringParams, s1) \<Rightarrow>
               (case deleteStringParams t managedPIDs localStringParams remoteStringParams
                       (emptyResult\<lparr>Deleted := [], Errors := []\<rparr>) s1 of
                  (results1, s2) \<Rightarrow>
                    (case GetBinaryParameters t ''Pid,Id'' s2 of
                       (Inl err, s3) \<Rightarrow>
                         (Inl (''failed to get remote binary parameters: '' @ err), s3)
                     | (Inr remoteBinaryParams, s3) \<Rightarrow>
                         (case deleteBinaryParams t managedPIDs localBinaryParams
                                 remoteBinaryParams results1 s3 of
                            (results2, s4) \<Rightarrow> (Inr results2, s4))))))"

text \<open>
  \<^verbatim>\<open>deployPartnerDirectory\<close>. The Go function returns an error or nothing and logs the
  three results; the model returns what is logged. The deletion runs only with
  \<open>fullSync\<close> and without \<open>dryRun\<close>, and an error of the deletion is only logged.
\<close>

definition deployPartnerDirectory ::
  "'w tenant \<Rightarrow> (string \<Rightarrow> (string \<rightharpoonup> string) option) \<Rightarrow> (string \<Rightarrow> string) \<Rightarrow> resources \<Rightarrow>
   bool \<Rightarrow> bool \<Rightarrow> bool \<Rightarrow> string list \<Rightarrow> 'w session \<Rightarrow>
   (string + BatchResult \<times> BatchResult \<times> BatchResult option) \<times> 'w session" where
  "deployPartnerDirectory t parseJSON b64 pd replace fullSync dryRun pidsFilter s =
     (case GetLocalPIDs pd of
        Inl err \<Rightarrow> (Inl (''failed to get local PIDs: '' @ err), s)
      | Inr localPIDs \<Rightarrow>
          if length pidsFilter > 0 \<and> length (filterPIDs localPIDs pidsFilter) = 0
          then (Inl (''no PIDs match the filter: ['' @ joinStr pidsFilter '' '' @ '']''), s)
          else (let managedPIDs = (if length pidsFilter > 0 then filterPIDs localPIDs pidsFilter
                                   else localPIDs)
                in case deployStringParameters t pd replace dryRun pidsFilter s of
                     (Inl err, s1) \<Rightarrow> (Inl (''failed to deploy string parameters: '' @ err), s1)
                   | (Inr stringResults, s1) \<Rightarrow>
                       (case deployBinaryParameters t parseJSON b64 pd replace dryRun pidsFilter s1 of
                          (Inl err, s2) \<Rightarrow>
                            (Inl (''failed to deploy binary parameters: '' @ err), s2)
                        | (Inr binaryResults, s2) \<Rightarrow>
                            if fullSync \<and> \<not> dryRun
                            then (case deleteRemoteEntriesNotInLocal t parseJSON b64 pd
                                         managedPIDs s2 of
                                    (Inl err, s3) \<Rightarrow>
                                      (Inr (stringResults, binaryResults, None), s3)
                                  | (Inr deletionResults, s3) \<Rightarrow>
                                      (Inr (stringResults, binaryResults, Some deletionResults), s3))
                            else (Inr (stringResults, binaryResults, None), s2))))"

text \<open>The calls that remove a record from the tenant.\<close>

fun isDeleteCall :: "apiCall \<Rightarrow> bool" where
  "isDeleteCall (DeleteStringParameterCall pid ident) = True"
| "isDeleteCall (DeleteBinaryParameterCall pid ident) = True"
| "isDeleteCall c = False"

section \<open>Batch requests (internal/httpclnt/batch.go)\<close>

text \<open>
  The headers of an operation are a Go map; the list below holds them in the order in
  which the iteration over the map yields them. The fields of a response are prefixed with
  \<open>Resp\<close>, and \<open>RespError = None\<close> is the \<open>nil\<close> error.
\<close>

record BatchOperation =
  Method :: string
  Path :: string
  Body :: string
  ContentID :: string
  Headers :: "(string \<times> string) list"
  IsQuery :: bool

record BatchOperationResponse =
  RespContentID :: string
  StatusCode :: int
  RespHeaders :: "(string \<times> string) list"
  RespBody :: string
  RespError :: "string option"

record BatchResponse =
  Operations :: "BatchOperationResponse list"

record BatchRequest =
  operations :: "BatchOperation list"
  batchBoundary :: string
  changesetBoundary :: string

definition batchBoundaryPrefix :: string where
  "batchBoundaryPrefix = ''batch_''"

definition changesetBoundaryPrefix :: string where
  "changesetBoundaryPrefix = ''changeset_''"

text \<open>\<^verbatim>\<open>%d\<close> of a length or a counter.\<close>

fun showNat :: "nat \<Rightarrow> string" where
  "showNat n =
     (if n < 10 then [''0123456789'' ! n]
      else showNat (n div 10) @ [''0123456789'' ! (n mod 10)])"

declare showNat.simps [simp del]

text \<open>\<^verbatim>\<open>generateBoundary\<close> counts in the package variable \<^verbatim>\<open>boundaryCounter\<close>.\<close>

definition generateBoundary :: "string \<Rightarrow> nat \<Rightarrow> string \<times> nat" where
  "generateBoundary pfx boundaryCounter =
     (pfx @ showNat (boundaryCounter + 1), boundaryCounter + 1)"

definition NewBatchRequest :: "nat \<Rightarrow> BatchRequest \<times> nat" where
  "NewBatchRequest boundaryCounter =
     (case generateBoundary batchBoundaryPrefix boundaryCounter of
        (b, c1) \<Rightarrow>
          (case generateBoundary changesetBoundaryPrefix c1 of
             (cs, c2) \<Rightarrow>
               (\<lparr>operations = [], batchBoundary = b, changesetBoundary = cs\<rparr>, c2)))"

definition AddOperation :: "BatchRequest \<Rightarrow> BatchOperation \<Rightarrow> BatchRequest" where
  "AddOperation br op = br\<lparr>operations := operations br @ [op]\<rparr>"

definition crlf :: string where
  "crlf = [CR, LF]"

definition writeHeaders :: "(string \<times> string) list \<Rightarrow> string" where
  "writeHeaders hs = concat (map (\<lambda>(key, v). key @ '': '' @ v @ crlf) hs)"

definition writeQueryOperation :: "BatchOperation \<Rightarrow> string" where
  "writeQueryOperation op =
     ''Content-Type: application/http'' @ crlf
     @ ''Content-Transfer-Encoding: binary'' @ crlf
     @ (if ContentID op \<noteq> [] then ''Content-ID: '' @ ContentID op @ crlf else [])
     @ crlf
     @ Method op @ '' '' @ Path op @ '' HTTP/1.1'' @ crlf
     @ writeHeaders (Headers op)
     @ crlf"

definition writeChangesetOperation :: "BatchRequest \<Rightarrow> BatchOperation \<Rightarrow> string" where
  "writeChangesetOperation br op =
     ''--'' @ changesetBoundary br @ crlf
     @ ''Content-Type: application/http'' @ crlf
     @ ''Content-Transfer-Encoding: binary'' @ crlf
     @ (if ContentID op \<noteq> [] then ''Content-ID: '' @ ContentID op @ crlf else [])
     @ crlf
     @ Method op @ '' '' @ Path op @ '' HTTP/1.1'' @ crlf
     @ writeHeaders (Headers op)
     @ (if length (Body op) > 0
        then ''Content-Length: '' @ showNat (length (Body op)) @ crlf @ crlf @ Body op
        else crlf)
     @ crlf"

definition buildBatchBody :: "BatchRequest \<Rightarrow> string" where
  "buildBatchBody br =
     (let queryOps = filter IsQuery (operations br);
          changesetOps = filter (\<lambda>op. \<not> IsQuery op) (operations br)
      in ''--'' @ batchBoundary br @ crlf
         @ concat (map (\<lambda>op. writeQueryOperation op @ ''--'' @ batchBoundary br @ crlf) queryOps)
         @ (if length changesetOps > 0
            then ''Content-Type: multipart/mixed; boundary='' @ changesetBoundary br @ crlf
                 @ crlf
                 @ concat (map (writeChangesetOperation br) changesetOps)
                 @ ''--'' @ changesetBoundary br @ ''--'' @ crlf
                 @ crlf
            else [])
         @ ''--'' @ batchBoundary br @ ''--'' @ crlf)"

text \<open>
  The HTTP executer is outside the repository: a function from a request and the state of
  the network to an error or a response, and a new state. The reading of the multipart
  response rests on the library's MIME reader and is the parameter \<open>parseBatchResponse\<close>.
  What \<^verbatim>\<open>Execute\<close> does is recorded as events: a body that was built, a request that was
  sent.
\<close>

record httpRequest =
  reqMethod :: string
  reqPath :: string
  reqBody :: string
  reqHeaders :: "(string \<times> string) list"

record httpResponse =
  respStatusCode :: int
  respContentType :: string
  respBody :: string

datatype batchEvent = BodyBuilt string | RequestSent httpRequest

type_synonym 'h executer = "httpRequest \<Rightarrow> 'h \<Rightarrow> (string + httpResponse) \<times> 'h"

definition Execute ::
  "'h executer \<Rightarrow> (httpResponse \<Rightarrow> string + BatchResponse) \<Rightarrow> BatchRequest \<Rightarrow>
   'h \<times> batchEvent list \<Rightarrow> (string + BatchResponse) \<times> ('h \<times> batchEvent list)" where
  "Execute exe parseBatchResponse br s =
     (if length (operations br) = 0 then (Inr \<lparr>Operations = []\<rparr>, s)
      else (let body = buildBatchBody br;
                contentType = ''multipart/mixed; boundary='' @ batchBoundary br;
                headers = [(''Content-Type'', contentType), (''Accept'', ''multipart/mixed'')];
                req = \<lparr>reqMethod = ''POST'', reqPath = ''/api/v1/$batch'', reqBody = body,
                       reqHeaders = headers\<rparr>
            in case exe req (fst s) of
                 (Inl err, h') \<Rightarrow>
                   (Inl (''batch request failed: '' @ err),
                    (h', snd s @ [BodyBuilt body, RequestSent req]))
               | (Inr resp, h') \<Rightarrow>
                   (if respStatusCode resp \<noteq> 202 \<and> respStatusCode resp \<noteq> 200
                    then (Inl (''batch request failed with status ''
                               @ (if respStatusCode resp < 0 then ''-'' else [])
                               @ showNat (nat \<bar>respStatusCode resp\<bar>) @ '': '' @ respBody resp),
                          (h', snd s @ [BodyBuilt body, RequestSent req]))
                    else (parseBatchResponse resp,
                          (h', snd s @ [BodyBuilt body, RequestSent req])))))"

section \<open>Deployment manifests and their merge (internal/models, internal/deploy/config_loader.go)\<close>

text \<open>
  \<^verbatim>\<open>models.Artifact\<close>, \<^verbatim>\<open>models.Package\<close>, \<^verbatim>\<open>models.DeployConfig\<close> and
  \<^verbatim>\<open>deploy.DeployConfigFile\<close>. The fields of an artifact carry the prefix \<open>Artifact\<close>
  where a package has a field of the same name (\<open>ArtifactId\<close> is Go's \<^verbatim>\<open>Id\<close>). The
  values of \<^verbatim>\<open>configOverrides\<close> are kept as text.
\<close>

record Artifact =
  ArtifactId :: string
  ArtifactDir :: string
  ArtifactDisplayName :: string
  ArtifactType :: string
  ArtifactSync :: bool
  ArtifactDeploy :: bool
  ConfigOverrides :: "(string \<times> string) list"

record Package =
  ID :: string
  PackageDir :: string
  DisplayName :: string
  Description :: string
  ShortText :: string
  Sync :: bool
  Deploy :: bool
  Artifacts :: "Artifact list"

record DeployConfig =
  DeploymentPrefix :: string
  Packages :: "Package list"

record DeployConfigFile =
  Config :: DeployConfig
  Source :: string
  FileName :: string
  Order :: int

text \<open>
  \<^verbatim>\<open>MergeConfigs\<close>. The inner loop goes through the packages of one manifest with the
  merged packages so far and the map from fully qualified IDs to file names. The package
  is copied, its ID and display name are prefixed, the map is asked, and then the artifact
  IDs are prefixed. The artifacts of the copy are the same Go slice as those of the
  source package, so the Go code also rewrites the artifact IDs of its input; the model
  gives the returned manifest, for manifests that do not share artifact slices (each one
  is decoded from its own file).
\<close>

definition duplicateMessage :: "string \<Rightarrow> string \<Rightarrow> string \<Rightarrow> string" where
  "duplicateMessage fullyQualifiedID fileName existingSource =
     ''duplicate package ID '' @ [CHR 0x27] @ fullyQualifiedID @ [CHR 0x27] @ '' found in ''
     @ fileName @ '' (already exists from '' @ existingSource @ '')''"

fun mergePackages ::
  "string \<Rightarrow> string \<Rightarrow> Package list \<Rightarrow> Package list \<times> (string \<rightharpoonup> string) \<Rightarrow>
   string + Package list \<times> (string \<rightharpoonup> string)" where
  "mergePackages configPrefix fileName [] st = Inr st"
| "mergePackages configPrefix fileName (pkg # pkgs) (merged, packageMap) =
     (let fullyQualifiedID = (if configPrefix \<noteq> [] then configPrefix @ [] @ ID pkg else ID pkg);
          mergedPkg =
            (if configPrefix \<noteq> []
             then pkg\<lparr>ID := fullyQualifiedID,
                      DisplayName :=
                        (if DisplayName pkg \<noteq> [] then configPrefix @ '' - '' @ DisplayName pkg
                         else configPrefix @ '' - '' @ ID pkg)\<rparr>
             else pkg)
      in case packageMap fullyQualifiedID of
           Some existingSource \<Rightarrow> Inl (duplicateMessage fullyQualifiedID fileName existingSource)
         | None \<Rightarrow>
             (let mergedPkg' =
                    (if configPrefix \<noteq> []
                     then mergedPkg\<lparr>Artifacts :=
                            map (\<lambda>a. a\<lparr>ArtifactId := configPrefix @ ''_'' @ ArtifactId a\<rparr>)
                                (Artifacts mergedPkg)\<rparr>
                     else mergedPkg)
              in mergePackages configPrefix fileName pkgs
                   (merged @ [mergedPkg'], packageMap(fullyQualifiedID \<mapsto> fileName))))"

fun mergeConfigFiles ::
  "DeployConfigFile list \<Rightarrow> Package list \<times> (string \<rightharpoonup> string) \<Rightarrow>
   string + Package list \<times> (string \<rightharpoonup> string)" where
  "mergeConfigFiles [] st = Inr st"
| "mergeConfigFiles (configFile # rest) st =
     (case mergePackages (DeploymentPrefix (Config configFile)) (FileName configFile)
             (Packages (Config configFile)) st of
        Inl err \<Rightarrow> Inl err
      | Inr st' \<Rightarrow> mergeConfigFiles rest st')"

definition MergeConfigs :: "DeployConfigFile list \<Rightarrow> string + DeployConfig" where
  "MergeConfigs configs =
     (if length configs = 0 then Inl ''no configs to merge''
      else (case mergeConfigFiles configs ([], Map.empty) of
              Inl err \<Rightarrow> Inl err
            | Inr (merged, packageMap) \<Rightarrow> Inr \<lparr>DeploymentPrefix = [], Packages = merged\<rparr>))"

text \<open>
  The fully qualified IDs that a list of manifests produces, each with the file name of
  its manifest, in the order of the merge.
\<close>

definition qualifiedID :: "string \<Rightarrow> Package \<Rightarrow> string" where
  "qualifiedID configPrefix pkg = configPrefix @ ID pkg"

definition qualifiedEntries :: "DeployConfigFile list \<Rightarrow> (string \<times> string) list" where
  "qualifiedEntries configs =
     concat (map (\<lambda>cf. map (\<lambda>p. (qualifiedID (DeploymentPrefix (Config cf)) p, FileName cf))
                          (Packages (Config cf))) configs)"


text \<open>
  The duplicate check alone, on the list of fully qualified IDs and file names: what
  \<^verbatim>\<open>MergeConfigs\<close> does with \<^verbatim>\<open>packageMap\<close>.
\<close>

fun registerEntries ::
  "(string \<times> string) list \<Rightarrow> (string \<rightharpoonup> string) \<Rightarrow> string + (string \<rightharpoonup> string)" where
  "registerEntries [] packageMap = Inr packageMap"
| "registerEntries ((fq, fileName) # es) packageMap =
     (case packageMap fq of
        Some existingSource \<Rightarrow> Inl (duplicateMessage fq fileName existingSource)
      | None \<Rightarrow> registerEntries es (packageMap(fq \<mapsto> fileName)))"

text \<open>Three manifests for the examples: two with the prefix \<open>DEV\<close>, one without prefix.\<close>

definition packageP1 :: Package where
  "packageP1 =
     \<lparr>ID = ''P1'', PackageDir = ''P1'', DisplayName = [], Description = [], ShortText = [],
      Sync = True, Deploy = True,
      Artifacts = [\<lparr>ArtifactId = ''A1'', ArtifactDir = ''A1'', ArtifactDisplayName = [],
                    ArtifactType = ''IntegrationFlow'', ArtifactSync = True,
                    ArtifactDeploy = True, ConfigOverrides = []\<rparr>]\<rparr>"

definition manifestA :: DeployConfigFile where
  "manifestA =
     \<lparr>Config = \<lparr>DeploymentPrefix = ''DEV'', Packages = [packageP1]\<rparr>,
      Source = ''a.yml'', FileName = ''a.yml'', Order = 0\<rparr>"

definition manifestB :: DeployConfigFile where
  "manifestB =
     \<lparr>Config = \<lparr>DeploymentPrefix = ''DEV'', Packages = [packageP1]\<rparr>,
      Source = ''b.yml'', FileName = ''b.yml'', Order = 1\<rparr>"

definition manifestPlain :: DeployConfigFile where
  "manifestPlain =
     \<lparr>Config = \<lparr>DeploymentPrefix = [], Packages = [packageP1]\<rparr>,
      Source = ''c.yml'', FileName = ''c.yml'', Order = 2\<rparr>"

section \<open>Manifest rewriter (internal/deploy/utils.go)\<close>

text \<open>
  \<^verbatim>\<open>UpdateManifestBundleName\<close> reads the manifest, detects the line ending, rewrites the
  lines, appends the headers that were not found, joins the lines, makes the directory of
  the output path and writes the result. The file system gives for a path the content of
  the file or the error of reading it; \<open>mkdirError\<close> and \<open>writeError\<close> say for which
  paths \<^verbatim>\<open>os.MkdirAll\<close> and \<^verbatim>\<open>os.WriteFile\<close> fail, and with which error.
\<close>

definition detectLineEnding :: "string \<Rightarrow> string" where
  "detectLineEnding data = (if containsStr data [CR, LF] then [CR, LF] else [LF])"

fun rewriteLines ::
  "string \<Rightarrow> string \<Rightarrow> string list \<Rightarrow> string list \<times> bool \<times> bool \<Rightarrow> string list \<times> bool \<times> bool" where
  "rewriteLines bundleSymbolicName bundleName [] st = st"
| "rewriteLines bundleSymbolicName bundleName (line # lines)
     (result, bundleNameFound, bundleSymbolicNameFound) =
     (let trimmedLower = toLower (trimSpace line)
      in if hasPrefix trimmedLower ''bundle-name:''
         then rewriteLines bundleSymbolicName bundleName lines
                (result @ [''Bundle-Name: '' @ bundleName], True, bundleSymbolicNameFound)
         else if hasPrefix trimmedLower ''bundle-symbolicname:''
         then rewriteLines bundleSymbolicName bundleName lines
                (result @ [''Bundle-SymbolicName: '' @ bundleSymbolicName], bundleNameFound, True)
         else rewriteLines bundleSymbolicName bundleName lines
                (result @ [line], bundleNameFound, bundleSymbolicNameFound))"

definition rewriteManifest :: "string \<Rightarrow> string \<Rightarrow> string \<Rightarrow> string" where
  "rewriteManifest data bundleSymbolicName bundleName =
     (let lineEnding = detectLineEnding data;
          lines = splitStr data lineEnding
      in case rewriteLines bundleSymbolicName bundleName lines ([], False, False) of
           (result, bundleNameFound, bundleSymbolicNameFound) \<Rightarrow>
             (let result1 = (if \<not> bundleNameFound
                             then result @ [''Bundle-Name: '' @ bundleName] else result);
                  result2 = (if \<not> bundleSymbolicNameFound
                             then result1 @ [''Bundle-SymbolicName: '' @ bundleSymbolicName]
                             else result1);
                  finalContent = joinStr result2 lineEnding
              in if \<not> hasSuffix finalContent lineEnding then finalContent @ lineEnding
                 else finalContent))"

definition UpdateManifestBundleName ::
  "(string \<Rightarrow> string option) \<Rightarrow> (string \<Rightarrow> string option) \<Rightarrow> (string \<Rightarrow> string + string) \<Rightarrow>
   string \<Rightarrow> string \<Rightarrow> string \<Rightarrow> string \<Rightarrow> string + (string \<Rightarrow> string + string)" where
  "UpdateManifestBundleName mkdirError writeError files manifestPath bundleSymbolicName bundleName
     outputPath =
     (case files manifestPath of
        Inl e \<Rightarrow> Inl (''failed to read MANIFEST.MF: '' @ e)
      | Inr data \<Rightarrow>
          (case mkdirError (filepathDir outputPath) of
             Some e \<Rightarrow> Inl (''failed to create output directory: '' @ e)
           | None \<Rightarrow>
               (case writeError outputPath of
                  Some e \<Rightarrow> Inl (''failed to write MANIFEST.MF: '' @ e)
                | None \<Rightarrow>
                    Inr (files(outputPath :=
                           Inr (rewriteManifest data bundleSymbolicName bundleName))))))"










section \<open>Orchestrator, phase 1 (internal/cmd/flashpipe_orchestrator.go)\<close>

datatype OperationMode = ModeUpdateAndDeploy | ModeUpdateOnly | ModeDeployOnly

text \<open>\<^verbatim>\<open>ProcessingStats\<close>; a Go \<^verbatim>\<open>map[string]bool\<close> that is only ever set to true is a set.\<close>

record ProcessingStats =
  PackagesUpdated :: int
  PackagesDeployed :: int
  PackagesFailed :: int
  PackagesFiltered :: int
  ArtifactsTotal :: int
  ArtifactsDeployedSuccess :: int
  ArtifactsDeployedFailed :: int
  ArtifactsFiltered :: int
  UpdateFailures :: int
  DeployFailures :: int
  SuccessfulPackageUpdates :: "string set"
  SuccessfulArtifactUpdates :: "string set"
  SuccessfulArtifactDeploys :: "string set"
  FailedPackageUpdates :: "string set"
  FailedArtifactUpdates :: "string set"
  FailedArtifactDeploys :: "string set"

record DeploymentTask =
  TaskArtifactID :: string
  TaskArtifactType :: string
  TaskPackageID :: string
  TaskDisplayName :: string

text \<open>
  What phase 1 meets outside the repository: whether the service details are there, which
  directories exist, whether the package JSON can be staged in the work directory, and
  what the package syncer, the directory copy and the artifact synchroniser answer (an
  error text, or \<open>None\<close> for success). The calls that leave the orchestrator are recorded
  in order.
\<close>

record orchestratorEnv =
  serviceDetailsNil :: bool
  serviceHostEmpty :: bool
  DirExists :: "string \<Rightarrow> bool"
  stagePackageJSONError :: "string \<Rightarrow> string option"
  packageSyncerError :: "string \<Rightarrow> string option"
  CopyDirError :: "string \<Rightarrow> string option"
  SingleArtifactToTenantError :: "string \<Rightarrow> string option"

datatype orchestratorCall =
    PackageSyncerExec string string string string
  | CopyDir string string
  | SingleArtifactToTenant string string string string

definition shouldInclude :: "string \<Rightarrow> string list \<Rightarrow> bool" where
  "shouldInclude ident flt = (if length flt = 0 then True else list_ex (\<lambda>f. f = ident) flt)"

definition mapArtifactTypeForSync :: "string \<Rightarrow> string" where
  "mapArtifactTypeForSync artifactType =
     (let t = toLower artifactType
      in if t \<in> set [''integrationflow'', ''integration flow'', ''iflow''] then ''Integration''
         else if t \<in> set [''valuemapping'', ''value mapping''] then ''ValueMapping''
         else if t \<in> set [''messagemapping'', ''message mapping''] then ''MessageMapping''
         else if t \<in> set [''scriptcollection'', ''script collection''] then ''ScriptCollection''
         else ''Integration'')"

text \<open>
  \<^verbatim>\<open>updatePackage\<close>. The package JSON is staged, then the package syncer runs. An error
  of the syncer is logged as a warning and \<open>nil\<close> is returned (``Don't return error -
  package might not exist yet'').
\<close>

definition updatePackage ::
  "orchestratorEnv \<Rightarrow> Package \<Rightarrow> string \<Rightarrow> string \<Rightarrow> string \<Rightarrow> orchestratorCall list \<Rightarrow>
   string option \<times> orchestratorCall list" where
  "updatePackage env pkg finalPackageID finalPackageName workDir calls =
     (if serviceDetailsNil env then (Some ''serviceDetails is nil - cannot update package'', calls)
      else (let description = (if Description pkg = [] then finalPackageName else Description pkg);
                shortText = (if ShortText pkg = [] then finalPackageName else ShortText pkg)
            in case stagePackageJSONError env (ID pkg) of
                 Some err \<Rightarrow> (Some err, calls)
               | None \<Rightarrow>
                   (let calls' = calls @ [PackageSyncerExec finalPackageID finalPackageName
                                            description shortText]
                    in case packageSyncerError env finalPackageID of
                         Some err \<Rightarrow> (None, calls')
                       | None \<Rightarrow> (None, calls'))))"

text \<open>
  The loop of \<^verbatim>\<open>updateArtifacts\<close>: \<open>updateArtifact\<close> is one pass through the body of the
  loop (a \<^verbatim>\<open>continue\<close> ends it), and the loop runs it on every artifact in order. The rewriting of the staged manifest and the merge of
  the staged parameters between the copy and the upload only log warnings; they change
  neither the statistics nor the calls and are left out.
\<close>

definition updateArtifact ::
  "orchestratorEnv \<Rightarrow> string \<Rightarrow> string \<Rightarrow> string \<Rightarrow> string \<Rightarrow> string \<Rightarrow> string list \<Rightarrow>
   Artifact \<Rightarrow> ProcessingStats \<times> orchestratorCall list \<Rightarrow>
   ProcessingStats \<times> orchestratorCall list" where
  "updateArtifact env packageDir finalPackageID finalPackageName pfx workDir artifactFilter
     artifact st =
     (case st of (stats, calls) \<Rightarrow>
      if \<not> shouldInclude (ArtifactId artifact) artifactFilter
      then (stats\<lparr>ArtifactsFiltered := ArtifactsFiltered stats + 1\<rparr>, calls)
      else if \<not> ArtifactSync artifact
      then (stats, calls)
      else (let stats1 = stats\<lparr>ArtifactsTotal := ArtifactsTotal stats + 1\<rparr>;
                artifactDir = pathJoin packageDir (ArtifactDir artifact)
            in if \<not> DirExists env artifactDir
               then (stats1, calls)
               else (let finalArtifactID = (if pfx \<noteq> [] then pfx @ ''_'' @ ArtifactId artifact
                                            else ArtifactId artifact);
                         finalArtifactName = (if ArtifactDisplayName artifact = []
                                              then ArtifactId artifact
                                              else ArtifactDisplayName artifact);
                         artifactType = mapArtifactTypeForSync (ArtifactType artifact);
                         tempArtifactDir = pathJoin workDir (ArtifactId artifact);
                         calls1 = calls @ [CopyDir artifactDir tempArtifactDir]
                     in case CopyDirError env artifactDir of
                          Some err \<Rightarrow>
                            (stats1\<lparr>FailedArtifactUpdates :=
                                      insert (ArtifactId artifact) (FailedArtifactUpdates stats1)\<rparr>,
                             calls1)
                        | None \<Rightarrow>
                            (let calls2 = calls1 @ [SingleArtifactToTenant finalArtifactID
                                                      finalArtifactName artifactType finalPackageID]
                             in case SingleArtifactToTenantError env finalArtifactID of
                                  Some err \<Rightarrow>
                                    (stats1\<lparr>UpdateFailures := UpdateFailures stats1 + 1,
                                            FailedArtifactUpdates :=
                                              insert (ArtifactId artifact)
                                                (FailedArtifactUpdates stats1)\<rparr>,
                                     calls2)
                                | None \<Rightarrow>
                                    (stats1\<lparr>SuccessfulArtifactUpdates :=
                                              insert finalArtifactID
                                                (SuccessfulArtifactUpdates stats1)\<rparr>,
                                     calls2)))))"

fun updateArtifactList ::
  "orchestratorEnv \<Rightarrow> string \<Rightarrow> string \<Rightarrow> string \<Rightarrow> string \<Rightarrow> string \<Rightarrow> string list \<Rightarrow>
   Artifact list \<Rightarrow> ProcessingStats \<times> orchestratorCall list \<Rightarrow>
   ProcessingStats \<times> orchestratorCall list" where
  "updateArtifactList env packageDir finalPackageID finalPackageName pfx workDir artifactFilter
     [] st = st"
| "updateArtifactList env packageDir finalPackageID finalPackageName pfx workDir artifactFilter
     (artifact # rest) st =
     updateArtifactList env packageDir finalPackageID finalPackageName pfx workDir artifactFilter
       rest
       (updateArtifact env packageDir finalPackageID finalPackageName pfx workDir artifactFilter
          artifact st)"

definition updateArtifacts ::
  "orchestratorEnv \<Rightarrow> Package \<Rightarrow> string \<Rightarrow> string \<Rightarrow> string \<Rightarrow> string \<Rightarrow> string \<Rightarrow> string list \<Rightarrow>
   ProcessingStats \<times> orchestratorCall list \<Rightarrow>
   string option \<times> (ProcessingStats \<times> orchestratorCall list)" where
  "updateArtifacts env pkg packageDir finalPackageID finalPackageName pfx workDir artifactFilter st =
     (if serviceDetailsNil env
      then (Some ''serviceDetails is nil - cannot initialize HTTP executer'', st)
      else if serviceHostEmpty env
      then (Some ''serviceDetails.Host is empty - check CPI credentials in config file'', st)
      else (None, updateArtifactList env packageDir finalPackageID finalPackageName pfx workDir
                    artifactFilter (Artifacts pkg) st))"

fun collectDeploymentTasks ::
  "string \<Rightarrow> string \<Rightarrow> string list \<Rightarrow> ProcessingStats \<Rightarrow> Artifact list \<Rightarrow> DeploymentTask list" where
  "collectDeploymentTasks finalPackageID pfx artifactFilter stats [] = []"
| "collectDeploymentTasks finalPackageID pfx artifactFilter stats (artifact # rest) =
     (if ArtifactId artifact \<in> FailedArtifactUpdates stats
      then collectDeploymentTasks finalPackageID pfx artifactFilter stats rest
      else if \<not> shouldInclude (ArtifactId artifact) artifactFilter
      then collectDeploymentTasks finalPackageID pfx artifactFilter stats rest
      else if \<not> ArtifactDeploy artifact
      then collectDeploymentTasks finalPackageID pfx artifactFilter stats rest
      else \<lparr>TaskArtifactID = (if pfx \<noteq> [] then pfx @ ''_'' @ ArtifactId artifact
                               else ArtifactId artifact),
            TaskArtifactType = (if ArtifactType artifact = [] then ''IntegrationFlow''
                                else ArtifactType artifact),
            TaskPackageID = finalPackageID,
            TaskDisplayName = ArtifactDisplayName artifact\<rparr>
           # collectDeploymentTasks finalPackageID pfx artifactFilter stats rest)"

text \<open>
  The loop of \<^verbatim>\<open>processPackages\<close> over the packages of the manifest: \<open>processPackage\<close>
  is one pass through the body of the loop. The state is the deployment tasks collected
  so far, the statistics and the calls made so far.
\<close>

definition processPackage ::
  "orchestratorEnv \<Rightarrow> DeployConfig \<Rightarrow> bool \<Rightarrow> OperationMode \<Rightarrow> string \<Rightarrow> string \<Rightarrow> string list \<Rightarrow>
   string list \<Rightarrow> Package \<Rightarrow> DeploymentTask list \<times> ProcessingStats \<times> orchestratorCall list \<Rightarrow>
   DeploymentTask list \<times> ProcessingStats \<times> orchestratorCall list" where
  "processPackage env config applyPrefix mode packagesDir workDir packageFilter artifactFilter
     pkg st =
     (case st of (tasks, stats, calls) \<Rightarrow>
      if \<not> shouldInclude (ID pkg) packageFilter
      then (tasks, stats\<lparr>PackagesFiltered := PackagesFiltered stats + 1\<rparr>, calls)
      else if \<not> Sync pkg \<and> \<not> Deploy pkg
      then (tasks, stats, calls)
      else (let packageDir = pathJoin packagesDir (PackageDir pkg)
            in if \<not> DirExists env packageDir
               then (tasks, stats, calls)
               else (let name0 = (if DisplayName pkg = [] then ID pkg else DisplayName pkg);
                         prefixed = (applyPrefix \<and> DeploymentPrefix config \<noteq> []);
                         finalPackageID = (if prefixed then DeploymentPrefix config @ [] @ ID pkg
                                           else ID pkg);
                         finalPackageName = (if prefixed
                                             then DeploymentPrefix config @ '' - '' @ name0
                                             else name0);
                         updated = (if mode \<noteq> ModeDeployOnly
                                    then updatePackage env pkg finalPackageID finalPackageName
                                           workDir calls
                                    else (None, calls))
                     in case updated of
                          (Some err, calls1) \<Rightarrow>
                            (tasks,
                             stats\<lparr>FailedPackageUpdates := insert (ID pkg) (FailedPackageUpdates stats),
                                    PackagesFailed := PackagesFailed stats + 1\<rparr>,
                             calls1)
                        | (None, calls1) \<Rightarrow>
                            (let stats1 = (if mode \<noteq> ModeDeployOnly
                                           then stats\<lparr>SuccessfulPackageUpdates :=
                                                         insert (ID pkg) (SuccessfulPackageUpdates stats),
                                                       PackagesUpdated := PackagesUpdated stats + 1\<rparr>
                                           else stats);
                                 st2 = (if Sync pkg \<and> mode \<noteq> ModeDeployOnly
                                        then (case updateArtifacts env pkg packageDir finalPackageID
                                                     finalPackageName (DeploymentPrefix config)
                                                     workDir artifactFilter (stats1, calls1) of
                                                (Some err, (s, c)) \<Rightarrow>
                                                  (s\<lparr>UpdateFailures := UpdateFailures s + 1\<rparr>, c)
                                              | (None, (s, c)) \<Rightarrow> (s, c))
                                        else (stats1, calls1));
                                 tasks' = (if Deploy pkg \<and> mode \<noteq> ModeUpdateOnly
                                           then tasks @ collectDeploymentTasks finalPackageID
                                                          (DeploymentPrefix config) artifactFilter
                                                          (fst st2) (Artifacts pkg)
                                           else tasks)
                             in (tasks', fst st2, snd st2)))))"

fun processPackageList ::
  "orchestratorEnv \<Rightarrow> DeployConfig \<Rightarrow> bool \<Rightarrow> OperationMode \<Rightarrow> string \<Rightarrow> string \<Rightarrow> string list \<Rightarrow>
   string list \<Rightarrow> Package list \<Rightarrow> DeploymentTask list \<times> ProcessingStats \<times> orchestratorCall list \<Rightarrow>
   DeploymentTask list \<times> ProcessingStats \<times> orchestratorCall list" where
  "processPackageList env config applyPrefix mode packagesDir workDir packageFilter artifactFilter
     [] st = st"
| "processPackageList env config applyPrefix mode packagesDir workDir packageFilter artifactFilter
     (pkg # rest) st =
     processPackageList env config applyPrefix mode packagesDir workDir packageFilter
       artifactFilter rest
       (processPackage env config applyPrefix mode packagesDir workDir packageFilter
          artifactFilter pkg st)"

definition processPackages ::
  "orchestratorEnv \<Rightarrow> DeployConfig \<Rightarrow> bool \<Rightarrow> OperationMode \<Rightarrow> string \<Rightarrow> string \<Rightarrow> string list \<Rightarrow>
   string list \<Rightarrow> ProcessingStats \<Rightarrow> orchestratorCall list \<Rightarrow>
   DeploymentTask list \<times> ProcessingStats \<times> orchestratorCall list" where
  "processPackages env config applyPrefix mode packagesDir workDir packageFilter artifactFilter
     stats calls =
     processPackageList env config applyPrefix mode packagesDir workDir packageFilter
       artifactFilter (Packages config) ([], stats, calls)"

definition newStats :: ProcessingStats where
  "newStats =
     \<lparr>PackagesUpdated = 0, PackagesDeployed = 0, PackagesFailed = 0, PackagesFiltered = 0,
      ArtifactsTotal = 0, ArtifactsDeployedSuccess = 0, ArtifactsDeployedFailed = 0,
      ArtifactsFiltered = 0, UpdateFailures = 0, DeployFailures = 0,
      SuccessfulPackageUpdates = {}, SuccessfulArtifactUpdates = {},
      SuccessfulArtifactDeploys = {}, FailedPackageUpdates = {}, FailedArtifactUpdates = {},
      FailedArtifactDeploys = {}\<rparr>"

text \<open>An environment in which everything is there and only the package syncer fails.\<close>

definition envSyncerDown :: orchestratorEnv where
  "envSyncerDown =
     \<lparr>serviceDetailsNil = False, serviceHostEmpty = False, DirExists = (\<lambda>p. True),
      stagePackageJSONError = (\<lambda>p. None),
      packageSyncerError = (\<lambda>p. Some ''HTTP 500''),
      CopyDirError = (\<lambda>p. None), SingleArtifactToTenantError = (\<lambda>a. None)\<rparr>"

text \<open>An environment without service details.\<close>

definition envNoService :: orchestratorEnv where
  "envNoService = envSyncerDown\<lparr>serviceDetailsNil := True\<rparr>"

text \<open>
  A manifest with two packages, and an environment in which the package JSON of the first
  one cannot be staged.
\<close>

definition manifestTwo :: DeployConfig where
  "manifestTwo =
     \<lparr>DeploymentPrefix = [],
      Packages = [packageP1, packageP1\<lparr>ID := ''P2'', PackageDir := ''P2''\<rparr>]\<rparr>"

definition envStageFails :: orchestratorEnv where
  "envStageFails =
     envSyncerDown\<lparr>stagePackageJSONError :=
                     (\<lambda>i. if i = ''P1'' then Some ''failed to write package JSON: disk full''
                          else None),
                   packageSyncerError := (\<lambda>p. None)\<rparr>"

section \<open>A tenant to run examples against\<close>

text \<open>
  The concrete examples below run against a tenant that keeps the parameters in two lists
  and answers every call from them.
\<close>

record kvWorld =
  rStrings :: "StringParameter list"
  rBinaries :: "BinaryParameter list"

fun kvTenant :: "kvWorld tenant" where
  "kvTenant (GetStringParametersCall selectFields) w = (StringList (rStrings w), w)"
| "kvTenant (GetBinaryParametersCall selectFields) w = (BinaryList (rBinaries w), w)"
| "kvTenant (GetStringParameterCall pid ident) w =
     (StringItem (find (\<lambda>p. Pid p = pid \<and> ParamID p = ident) (rStrings w)), w)"
| "kvTenant (GetBinaryParameterCall pid ident) w =
     (BinaryItem (find (\<lambda>p. Pid p = pid \<and> ParamID p = ident) (rBinaries w)), w)"
| "kvTenant (CreateStringParameterCall p) w = (Done, w\<lparr>rStrings := rStrings w @ [p]\<rparr>)"
| "kvTenant (UpdateStringParameterCall p) w =
     (Done, w\<lparr>rStrings := map (\<lambda>q. if Pid q = Pid p \<and> ParamID q = ParamID p then p else q)
                                (rStrings w)\<rparr>)"
| "kvTenant (DeleteStringParameterCall pid ident) w =
     (Done, w\<lparr>rStrings := filter (\<lambda>q. \<not> (Pid q = pid \<and> ParamID q = ident)) (rStrings w)\<rparr>)"
| "kvTenant (CreateBinaryParameterCall p) w = (Done, w\<lparr>rBinaries := rBinaries w @ [p]\<rparr>)"
| "kvTenant (UpdateBinaryParameterCall p) w =
     (Done, w\<lparr>rBinaries := map (\<lambda>q. if Pid q = Pid p \<and> ParamID q = ParamID p then p else q)
                                 (rBinaries w)\<rparr>)"
| "kvTenant (DeleteBinaryParameterCall pid ident) w =
     (Done, w\<lparr>rBinaries := filter (\<lambda>q. \<not> (Pid q = pid \<and> ParamID q = ident)) (rBinaries w)\<rparr>)"

text \<open>
  A local tree with one partner \<open>P1\<close> that has the binary file \<open>x.xml\<close> and a sidecar
  entry for it, and the decoder that reads this sidecar.
\<close>

definition localP1 :: resources where
  "localP1 =
     Resources
       [(''P1'', PidDirectory
           \<lparr>stringProperties = None,
            binaryDir = Some \<lparr>readDirError = None,
                              entries = [(''_metadata.json'', RegularFile (File ''{...}'')),
                                         (''x.xml'', RegularFile (File ''<a/>''))]\<rparr>\<rparr>)]"

definition sidecarP1 :: "string \<Rightarrow> (string \<rightharpoonup> string) option" where
  "sidecarP1 text = Some [''x.xml'' \<mapsto> ''xml; encoding=UTF-8'']"

text \<open>
  A local tree in which the partner \<open>P1\<close> has the binary file \<open>x.xml\<close> and a sidecar that
  is not JSON, and the decoder that rejects it.
\<close>

definition localBrokenSidecar :: resources where
  "localBrokenSidecar =
     Resources
       [(''P1'', PidDirectory
           \<lparr>stringProperties = None,
            binaryDir = Some \<lparr>readDirError = None,
                              entries = [(''_metadata.json'', RegularFile (File ''{'')),
                                         (''x.xml'', RegularFile (File ''<a/>''))]\<rparr>\<rparr>)]"

definition rejectJSON :: "string \<Rightarrow> (string \<rightharpoonup> string) option" where
  "rejectJSON text = None"

section \<open>Properties\<close>

subsection \<open>Escaping of property values\<close>

text \<open>
  C1. The claim is that unescaping the escaped form gives the value back for every value,
  also one that holds a backslash followed by the letter n. The code does not: the value
  backslash-n is escaped to backslash-backslash-n, and the first pass of the unescaping
  finds backslash-n at the second position and turns it into a newline, before the pass
  for the doubled backslash runs. The value read back is backslash-newline.
\<close>

theorem escape_roundtrip_fails_backslash_n:
  "escapePropertyValue [backslash, CHR ''n''] = [backslash, backslash, CHR ''n'']
   \<and> unescapePropertyValue (escapePropertyValue [backslash, CHR ''n'']) = [backslash, LF]
   \<and> unescapePropertyValue (escapePropertyValue [backslash, CHR ''n'']) \<noteq> [backslash, CHR ''n'']"
  by (simp add: escapePropertyValue_def unescapePropertyValue_def replaceAll_def)

subsection \<open>File names of binary parameters\<close>

text \<open>
  C9. The claim is that a parameter ID that already ends with the resolved extension,
  compared without regard to case, is the file name, so that no extension is doubled.
  The code lower-cases the ID but not the extension, and the resolver returns the
  extension as the tenant spelled it: for the content type \<open>XML\<close> the extension is
  \<open>XML\<close>, no lower-cased ID ends with \<open>.XML\<close>, and the parameter \<open>report.XML\<close> is
  written to \<open>report.XML.XML\<close>. The sidecar is keyed by the same doubled name.
\<close>

theorem binary_filename_doubles_uppercase_extension:
  "getFileExtension ''XML'' = ''XML''
   \<and> saveBinaryParameterToFile Some (\<lambda>n. None) Map.empty
         \<lparr>Pid = ''P1'', ParamID = ''report.XML'', Value = ''PGEvPg=='', ContentType = ''XML''\<rparr>
       = Inr [''report.XML.XML'' \<mapsto> ''PGEvPg=='']
   \<and> updateMetadataFile Map.empty ''report.XML'' ''XML; encoding=UTF-8''
       = [''report.XML.XML'' \<mapsto> ''XML; encoding=UTF-8'']"
  by (simp add: saveBinaryParameterToFile_def updateMetadataFile_def getFileExtension_def
      parseContentType_def containsStr_def trimSpace_def isSpace_def isValidContentType_def
      supportedContentTypes_def toLower_def toLowerChar_def upperLetters_def lowerLetters_def
      hasSuffix_def suffix_def Let_def)

subsection \<open>Classification of binary parameters on deploy\<close>

text \<open>
  C4. The claim is that on deploy a local binary parameter with a remote counterpart is
  unchanged exactly when value and full content type are both equal. In
  \<^verbatim>\<open>deployBinaryParameters\<close> the test is \<^verbatim>\<open>replace && existing.Value != param.Value\<close>:
  the local parameter \<open>P1/x\<close> below has the content type \<open>xml; encoding=UTF-8\<close> from its
  sidecar, the remote one has \<open>xml\<close> and the same value, and with \<open>replace\<close> set the
  parameter is reported unchanged and no update is sent.
\<close>

theorem deploy_binary_ignores_content_type:
  "ReadBinaryParameters sidecarP1 id localP1 ''P1''
     = Inr [\<lparr>Pid = ''P1'', ParamID = ''x'', Value = ''<a/>'',
              ContentType = ''xml; encoding=UTF-8''\<rparr>]
   \<and> deployBinaryParameters kvTenant sidecarP1 id localP1 True False []
         (\<lparr>rStrings = [],
            rBinaries = [\<lparr>Pid = ''P1'', ParamID = ''x'', Value = ''<a/>'',
                           ContentType = ''xml''\<rparr>]\<rparr>, [])
     = (Inr \<lparr>Created = [], Updated = [], Unchanged = [''P1/x''], Deleted = [], Errors = []\<rparr>,
        (\<lparr>rStrings = [],
           rBinaries = [\<lparr>Pid = ''P1'', ParamID = ''x'', Value = ''<a/>'',
                          ContentType = ''xml''\<rparr>]\<rparr>,
         [GetBinaryParameterCall ''P1'' ''x'']))"
  by code_simp

subsection \<open>Merging manifests\<close>






lemma registerEntries_append:
  "registerEntries (xs @ ys) pm =
     (case registerEntries xs pm of Inl e \<Rightarrow> Inl e | Inr pm' \<Rightarrow> registerEntries ys pm')"
  by (induction xs arbitrary: pm) (auto split: option.splits)

lemma mergePackages_register:
  "map_sum id snd (mergePackages P fn pkgs (m, pm)) =
     registerEntries (map (\<lambda>p. (qualifiedID P p, fn)) pkgs) pm"
  by (induction pkgs arbitrary: m pm) (auto simp: Let_def qualifiedID_def split: option.splits)

lemma mergeConfigFiles_register:
  "map_sum id snd (mergeConfigFiles cfgs (m, pm)) = registerEntries (qualifiedEntries cfgs) pm"
proof (induction cfgs arbitrary: m pm)
  case Nil
  then show ?case by (simp add: qualifiedEntries_def)
next
  case (Cons cf cfgs)
  let ?r = "mergePackages (DeploymentPrefix (Config cf)) (FileName cf) (Packages (Config cf)) (m, pm)"
  have split: "qualifiedEntries (cf # cfgs) =
      map (\<lambda>p. (qualifiedID (DeploymentPrefix (Config cf)) p, FileName cf)) (Packages (Config cf))
      @ qualifiedEntries cfgs"
    by (simp add: qualifiedEntries_def)
  have reg: "registerEntries
      (map (\<lambda>p. (qualifiedID (DeploymentPrefix (Config cf)) p, FileName cf)) (Packages (Config cf))) pm
      = map_sum id snd ?r"
    by (rule mergePackages_register [symmetric])
  show ?case
  proof (cases ?r)
    case (Inl e)
    then show ?thesis by (simp add: split registerEntries_append reg)
  next
    case (Inr st)
    obtain m1 pm1 where st: "st = (m1, pm1)" by (cases st)
    with Inr Cons.IH [of m1 pm1]
    show ?thesis by (simp add: split registerEntries_append reg)
  qed
qed

lemma registerEntries_collision:
  assumes "\<And>k f. pm k = Some f \<Longrightarrow> \<exists>i < length pre. pre ! i = (k, f)"
    and "\<not> (distinct (map fst es) \<and> fst ` set es \<inter> dom pm = {})"
  shows "\<exists>fq f1 f2 i j. registerEntries es pm = Inl (duplicateMessage fq f2 f1)
           \<and> i < j \<and> j < length (pre @ es) \<and> (pre @ es) ! i = (fq, f1) \<and> (pre @ es) ! j = (fq, f2)"
  using assms
proof (induction es arbitrary: pre pm)
  case Nil
  then show ?case by simp
next
  case (Cons e es)
  obtain fq fn where e: "e = (fq, fn)" by (cases e)
  show ?case
  proof (cases "pm fq")
    case (Some ex)
    from Cons.prems(1) [OF Some] obtain i where i: "i < length pre" "pre ! i = (fq, ex)" by blast
    have "registerEntries (e # es) pm = Inl (duplicateMessage fq fn ex)"
      using Some e by simp
    moreover have "(pre @ e # es) ! i = (fq, ex)" using i by (simp add: nth_append)
    moreover have "(pre @ e # es) ! length pre = (fq, fn)" using e by simp
    ultimately show ?thesis using i(1)
      by (intro exI [of _ fq] exI [of _ ex] exI [of _ fn] exI [of _ i] exI [of _ "length pre"]) simp
  next
    case None
    let ?pm = "pm(fq \<mapsto> fn)"
    have inv: "\<And>k f. ?pm k = Some f \<Longrightarrow> \<exists>i < length (pre @ [e]). (pre @ [e]) ! i = (k, f)"
    proof -
      fix k f assume kf: "?pm k = Some f"
      show "\<exists>i < length (pre @ [e]). (pre @ [e]) ! i = (k, f)"
      proof (cases "k = fq")
        case True
        with kf e have "(pre @ [e]) ! length pre = (k, f)" by simp
        then show ?thesis by (intro exI [of _ "length pre"]) simp
      next
        case False
        with kf have "pm k = Some f" by simp
        from Cons.prems(1) [OF this] obtain i where "i < length pre" "pre ! i = (k, f)" by blast
        then show ?thesis by (intro exI [of _ i]) (simp add: nth_append)
      qed
    qed
    have cond: "\<not> (distinct (map fst es) \<and> fst ` set es \<inter> dom ?pm = {})"
      using Cons.prems(2) None e by (auto simp: dom_def)
    from Cons.IH [of ?pm "pre @ [e]", OF inv cond]
    obtain fq' f1 f2 i j where
      "registerEntries es ?pm = Inl (duplicateMessage fq' f2 f1)" "i < j"
      "j < length ((pre @ [e]) @ es)" "((pre @ [e]) @ es) ! i = (fq', f1)"
      "((pre @ [e]) @ es) ! j = (fq', f2)"
      by blast
    moreover have "registerEntries (e # es) pm = registerEntries es ?pm"
      using None e by simp
    ultimately show ?thesis by (simp del: registerEntries.simps) blast
  qed
qed

text \<open>
  C6. When two packages of the loaded manifests produce the same fully qualified ID, the
  merge returns an error and no manifest. The error is the message for two such packages,
  the earlier at position \<open>i\<close> and the later at position \<open>j\<close>: it contains the fully
  qualified ID, the file name of the manifest of the later package and the file name of
  the manifest of the earlier one.
\<close>

theorem merge_reports_duplicate:
  assumes "\<not> distinct (map fst (qualifiedEntries configs))"
  shows "\<exists>fq f1 f2 i j.
           MergeConfigs configs = Inl (duplicateMessage fq f2 f1)
           \<and> i < j \<and> j < length (qualifiedEntries configs)
           \<and> qualifiedEntries configs ! i = (fq, f1)
           \<and> qualifiedEntries configs ! j = (fq, f2)
           \<and> sublist fq (duplicateMessage fq f2 f1)
           \<and> sublist f1 (duplicateMessage fq f2 f1)
           \<and> sublist f2 (duplicateMessage fq f2 f1)"
proof -
  have ne: "configs \<noteq> []"
    using assms by (auto simp: qualifiedEntries_def)
  from registerEntries_collision [of Map.empty "[]" "qualifiedEntries configs"] assms
  obtain fq f1 f2 i j where
    r: "registerEntries (qualifiedEntries configs) Map.empty = Inl (duplicateMessage fq f2 f1)"
    and ij: "i < j" "j < length (qualifiedEntries configs)"
      "qualifiedEntries configs ! i = (fq, f1)" "qualifiedEntries configs ! j = (fq, f2)"
    by auto
  from r mergeConfigFiles_register [of configs "[]" Map.empty]
  have "mergeConfigFiles configs ([], Map.empty) = Inl (duplicateMessage fq f2 f1)"
    by (cases "mergeConfigFiles configs ([], Map.empty)") auto
  with ne have m: "MergeConfigs configs = Inl (duplicateMessage fq f2 f1)"
    by (simp add: MergeConfigs_def)
  have s1: "sublist fq (duplicateMessage fq f2 f1)"
    unfolding duplicateMessage_def sublist_def
    by (intro exI [of _ "''duplicate package ID '' @ [CHR 0x27]"]
              exI [of _ "[CHR 0x27] @ '' found in '' @ f2 @ '' (already exists from '' @ f1 @ '')''"]) simp
  have s2: "sublist f1 (duplicateMessage fq f2 f1)"
    unfolding duplicateMessage_def sublist_def
    by (intro exI [of _ "''duplicate package ID '' @ [CHR 0x27] @ fq @ [CHR 0x27] @ '' found in '' @ f2 @ '' (already exists from ''"]
              exI [of _ "'')''"]) simp
  have s3: "sublist f2 (duplicateMessage fq f2 f1)"
    unfolding duplicateMessage_def sublist_def
    by (intro exI [of _ "''duplicate package ID '' @ [CHR 0x27] @ fq @ [CHR 0x27] @ '' found in ''"]
              exI [of _ "'' (already exists from '' @ f1 @ '')''"]) simp
  from m ij s1 s2 s3 show ?thesis by blast
qed

theorem merge_reports_duplicate_witness:
  "\<not> distinct (map fst (qualifiedEntries [manifestA, manifestB]))
   \<and> MergeConfigs [manifestA, manifestB] = Inl (duplicateMessage ''DEVP1'' ''b.yml'' ''a.yml'')
   \<and> (\<exists>fq f1 f2.
         MergeConfigs [manifestA, manifestB] = Inl (duplicateMessage fq f2 f1)
         \<and> sublist fq (duplicateMessage fq f2 f1)
         \<and> sublist f1 (duplicateMessage fq f2 f1)
         \<and> sublist f2 (duplicateMessage fq f2 f1))"
proof -
  have d: "\<not> distinct (map fst (qualifiedEntries [manifestA, manifestB]))"
    by (simp add: qualifiedEntries_def manifestA_def manifestB_def)
  have m: "MergeConfigs [manifestA, manifestB] = Inl (duplicateMessage ''DEVP1'' ''b.yml'' ''a.yml'')"
    by (simp add: MergeConfigs_def manifestA_def manifestB_def packageP1_def Let_def)
  from merge_reports_duplicate [OF d] d m show ?thesis by blast
qed

subsection \<open>Empty batch requests\<close>

text \<open>
  C10. A batch request without operations returns the response with no operations and no
  error; no body is built and no request is sent, whatever the executer and the state.
\<close>

theorem execute_empty_batch:
  "operations br = [] \<Longrightarrow> Execute exe parse br s = (Inr \<lparr>Operations = []\<rparr>, s)"
  by (simp add: Execute_def)

theorem execute_empty_batch_witness:
  "operations (fst (NewBatchRequest 0)) = []
   \<and> Execute (\<lambda>req h. (Inl ''connection refused'', h)) (\<lambda>r. Inl ''not multipart'')
        (fst (NewBatchRequest 0)) ((), [])
     = (Inr \<lparr>Operations = []\<rparr>, ((), []))"
  using execute_empty_batch [of "fst (NewBatchRequest 0)" "\<lambda>req h. (Inl ''connection refused'', h)"
      "\<lambda>r. Inl ''not multipart''" "((), [])"]
  by (simp add: NewBatchRequest_def generateBoundary_def)

lemma execute_nonempty_sends:
  "operations br \<noteq> [] \<Longrightarrow>
   snd (snd (Execute exe parse br s)) =
     snd s @ [BodyBuilt (buildBatchBody br),
              RequestSent \<lparr>reqMethod = ''POST'', reqPath = ''/api/v1/$batch'',
                           reqBody = buildBatchBody br,
                           reqHeaders = [(''Content-Type'', ''multipart/mixed; boundary='' @ batchBoundary br),
                                         (''Accept'', ''multipart/mixed'')]\<rparr>]"
  by (simp add: Execute_def Let_def split: prod.splits sum.splits)

subsection \<open>The extension of a content type\<close>

text \<open>
  C8. The claim is that the resolved extension is the result of the algorithm of the
  specification, whose base type is the text before the first semicolon as it stands. The
  code trims the base type, so \<open>text/xml ; charset=utf-8\<close> resolves to \<open>xml\<close> where the
  algorithm, with the subtype \<open>xml\<close> and a blank after it, gives \<open>bin\<close>; and the code
  keeps the whole content type as the base type when the semicolon comes first, so
  \<open>;/xml\<close> resolves to \<open>xml\<close> where the algorithm has an empty base type and gives
  \<open>bin\<close>.
\<close>

theorem getFileExtension_differs_from_untrimmed_algorithm:
  "getFileExtension ''text/xml ; charset=utf-8'' = ''xml''
   \<and> spec_resolveExtension ''text/xml ; charset=utf-8'' = ''bin''
   \<and> getFileExtension ''text/xml ; charset=utf-8'' \<noteq> spec_resolveExtension ''text/xml ; charset=utf-8''
   \<and> getFileExtension '';/xml'' = ''xml''
   \<and> spec_resolveExtension '';/xml'' = ''bin''
   \<and> getFileExtension '';/xml'' \<noteq> spec_resolveExtension '';/xml''"
  by code_simp

lemma indexStr_single:
  "indexStr s [c] = (if c \<in> set s then Some (length (takeWhile (\<lambda>x. x \<noteq> c) s)) else None)"
  by (induction s) auto

lemma containsStr_single: "containsStr s [c] \<longleftrightarrow> c \<in> set s"
  by (simp add: containsStr_def indexStr_single)

lemma splitNE_single:
  "splitNE s [c] =
     (if c \<in> set s
      then takeWhile (\<lambda>x. x \<noteq> c) s # splitNE (tl (dropWhile (\<lambda>x. x \<noteq> c) s)) [c]
      else [s])"
proof -
  have "drop (Suc (length (takeWhile (\<lambda>x. x \<noteq> c) s))) s = tl (dropWhile (\<lambda>x. x \<noteq> c) s)"
    by (simp add: dropWhile_eq_drop drop_Suc tl_drop)
  then show ?thesis
    by (subst splitNE.simps) (simp add: indexStr_single takeWhile_eq_take [symmetric])
qed

lemma splitNE_nonempty: "splitNE s sep \<noteq> []"
  by (subst splitNE.simps) (simp split: option.splits)

lemma splitNE_length_one: "length (splitNE s [c]) = 1 \<longleftrightarrow> c \<notin> set s"
  by (subst splitNE_single) (simp add: splitNE_nonempty)

lemma toLowerChar_cases:
  assumes "toLowerChar c \<in> set lowerLetters"
  shows "c \<in> set (lowerLetters @ upperLetters @ digits)"
proof (cases "map_of (zip upperLetters lowerLetters) c")
  case None
  with assms show ?thesis by (simp add: toLowerChar_def)
next
  case (Some l)
  then have "(c, l) \<in> set (zip upperLetters lowerLetters)" by (rule map_of_SomeD)
  then have "c \<in> set upperLetters" by (rule set_zip_leftD)
  then show ?thesis by simp
qed

lemma toLower_alnum:
  "set (toLower e) \<subseteq> set lowerLetters \<Longrightarrow> isAlphanumeric e"
  unfolding isAlphanumeric_def toLower_def list_all_iff
  using toLowerChar_cases by auto

lemma recognised_lower:
  "r \<in> set [''xml'', ''xsl'', ''xsd'', ''json'', ''txt'', ''zip'', ''gz'', ''zlib'', ''crt''] \<Longrightarrow>
   set r \<subseteq> set lowerLetters \<and> 2 \<le> length r \<and> length r \<le> 5"
  by (auto simp: lowerLetters_def)

lemma alnum_no_slash: "isAlphanumeric e \<Longrightarrow> CHR ''/'' \<notin> set e"
proof
  assume "isAlphanumeric e" and "CHR ''/'' \<in> set e"
  then have "CHR ''/'' \<in> set (lowerLetters @ upperLetters @ digits)"
    by (auto simp: isAlphanumeric_def list_all_iff)
  then show False by (simp add: lowerLetters_def upperLetters_def digits_def)
qed

lemma isValid_alnum:
  assumes "isValidContentType e"
  shows "isAlphanumeric e \<and> 2 \<le> length e \<and> length e \<le> 5 \<and> CHR ''/'' \<notin> set e"
proof -
  from assms have mem: "toLower e \<in> set [''xml'', ''xsl'', ''xsd'', ''json'', ''txt'', ''zip'', ''gz'', ''zlib'', ''crt'']"
    by (simp add: isValidContentType_def supportedContentTypes_def split: if_splits option.splits)
  from recognised_lower [OF mem]
  have low: "set (toLower e) \<subseteq> set lowerLetters"
    and len: "2 \<le> length (toLower e) \<and> length (toLower e) \<le> 5" by simp_all
  from low have a: "isAlphanumeric e" by (rule toLower_alnum)
  from len have l: "2 \<le> length e \<and> length e \<le> 5" by (simp add: toLower_def)
  from a have "CHR ''/'' \<notin> set e" by (rule alnum_no_slash)
  with a l show ?thesis by simp
qed

lemma recognised_isValid:
  "e \<in> set [''xml'', ''xsl'', ''xsd'', ''json'', ''txt'', ''zip'', ''gz'', ''zlib'', ''crt''] \<Longrightarrow>
   isValidContentType e"
  by (auto simp: isValidContentType_def supportedContentTypes_def toLower_def toLowerChar_def
      upperLetters_def lowerLetters_def)

lemma accept_eq:
  "(if isValidContentType e then e
    else if e \<noteq> [] \<and> length e \<ge> 2 \<and> length e \<le> 5 \<and> isAlphanumeric e then e
    else defaultBinaryExt) = spec_accept e"
proof (cases "isValidContentType e")
  case True
  from isValid_alnum [OF True] True show ?thesis
    by (simp add: spec_accept_def)
next
  case False
  with recognised_isValid [of e]
  have "e \<notin> set [''xml'', ''xsl'', ''xsd'', ''json'', ''txt'', ''zip'', ''gz'', ''zlib'', ''crt'']"
    by blast
  with False show ?thesis
    by (auto simp: spec_accept_def defaultBinaryExt_def)
qed

lemma slash_rejected: "CHR ''/'' \<in> set e \<Longrightarrow> spec_accept e = ''bin''"
proof -
  assume s: "CHR ''/'' \<in> set e"
  then have "\<not> isAlphanumeric e"
    using alnum_no_slash by blast
  moreover from s have "e \<notin> set [''xml'', ''xsl'', ''xsd'', ''json'', ''txt'', ''zip'', ''gz'', ''zlib'', ''crt'']"
    by auto
  ultimately show ?thesis by (simp add: spec_accept_def)
qed

lemma candidate_eq:
  "spec_accept (fst (
     if containsStr b ''/''
     then (let parts = splitStr b ''/''
           in if length parts = 2
              then (let ext = parts ! 1
                    in if ext = ''octet-stream'' then (defaultBinaryExt, ct) else (ext, ct))
              else (b, ct))
     else (b, ct))) = spec_accept (spec_candidate b)"
proof (cases "CHR ''/'' \<in> set b")
  case False
  then show ?thesis by (simp add: containsStr_single spec_candidate_def)
next
  case True
  let ?rest = "tl (dropWhile (\<lambda>x. x \<noteq> CHR ''/'') b)"
  have parts: "splitStr b ''/'' = takeWhile (\<lambda>x. x \<noteq> CHR ''/'') b # splitNE ?rest ''/''"
    using True by (simp add: splitStr_def splitNE_single [where s = b and c = "CHR ''/''"])
  show ?thesis
  proof (cases "CHR ''/'' \<in> set ?rest")
    case False
    then have "splitNE ?rest ''/'' = [?rest]" by (simp add: splitNE_single [where s = ?rest and c = "CHR ''/''"])
    with parts True show ?thesis
      by (simp add: containsStr_single spec_candidate_def Let_def defaultBinaryExt_def)
  next
    case inner: True
    then have "length (splitNE ?rest ''/'') \<noteq> 1"
      using splitNE_length_one [where s = ?rest and c = "CHR ''/''"] by simp
    with parts have "length (splitStr b ''/'') \<noteq> 2" by simp
    moreover from inner have "?rest \<noteq> ''octet-stream''" by auto
    ultimately show ?thesis
      using True inner by (simp add: containsStr_single spec_candidate_def Let_def slash_rejected)
  qed
qed

lemma baseType_eq:
  "(case indexStr ct '';'' of
      Some idx \<Rightarrow> if idx > 0 then trimSpace (take idx ct) else ct
    | None \<Rightarrow> ct)
   = (if CHR '';'' \<in> set ct \<and> \<not> prefix '';'' ct
      then trimSpace (takeWhile (\<lambda>c. c \<noteq> CHR '';'') ct) else ct)"
  by (cases ct) (auto simp: indexStr_single takeWhile_eq_take [symmetric])

text \<open>
  C8, as the code has it. For every content type of ASCII bytes the resolved extension is
  the result of the algorithm of the specification when the base type is taken as follows:
  the text before the first semicolon, trimmed of white space, when the content type has a
  semicolon and does not begin with one; the whole content type, untrimmed, otherwise.
  Outside ASCII the lookup of the recognised names goes through the case folding of
  \<^verbatim>\<open>strings.ToLower\<close> and the trimming through the white space of Unicode, which the
  algorithm does not speak of.
\<close>

theorem getFileExtension_follows_trimmed_algorithm:
  "isASCII ct \<Longrightarrow> getFileExtension ct = spec_resolveExtension_trimmed ct"
  unfolding getFileExtension_def parseContentType_def spec_resolveExtension_trimmed_def
  by (simp only: Let_def accept_eq baseType_eq candidate_eq [unfolded Let_def])

theorem getFileExtension_follows_trimmed_algorithm_witness:
  "isASCII ''text/xml ; charset=utf-8''
   \<and> getFileExtension ''text/xml ; charset=utf-8''
       = spec_resolveExtension_trimmed ''text/xml ; charset=utf-8''
   \<and> getFileExtension ''text/xml ; charset=utf-8'' = ''xml''"
proof -
  have a: "isASCII ''text/xml ; charset=utf-8''" by code_simp
  have x: "getFileExtension ''text/xml ; charset=utf-8'' = ''xml''" by code_simp
  from getFileExtension_follows_trimmed_algorithm [OF a] a x show ?thesis by blast
qed

subsection \<open>Splitting and joining\<close>









subsection \<open>Rewriting the manifest\<close>

































text \<open>A run of \<^verbatim>\<open>UpdateManifestBundleName\<close> that succeeds writes the rewritten manifest.\<close>

lemma UpdateManifestBundleName_writes:
  assumes "UpdateManifestBundleName mkdirError writeError files manifestPath symbolicName
             bundleName outputPath = Inr files'"
  shows "\<exists>data. files manifestPath = Inr data
           \<and> files' = files(outputPath := Inr (rewriteManifest data symbolicName bundleName))"
  using assms
  by (auto simp: UpdateManifestBundleName_def split: sum.splits option.splits)



subsection \<open>Package updates in phase 1\<close>

text \<open>
  C2. The claim is that a package whose metadata update through the package syncer fails
  is put into the failed-packages set and that its artifacts are skipped. The code logs
  the error of the syncer as a warning and goes on: with a syncer that answers
  \<open>HTTP 500\<close>, the package \<open>P1\<close> is counted as updated, the failed-packages set stays
  empty, and its artifact \<open>A1\<close> is copied and uploaded.
\<close>

theorem syncer_failure_is_not_recorded:
  "packageSyncerError envSyncerDown ''P1'' = Some ''HTTP 500''
   \<and> FailedPackageUpdates
         (fst (snd (processPackages envSyncerDown (Config manifestPlain) True ModeUpdateAndDeploy
                      ''packages'' ''work'' [] [] newStats []))) = {}
   \<and> SuccessfulPackageUpdates
         (fst (snd (processPackages envSyncerDown (Config manifestPlain) True ModeUpdateAndDeploy
                      ''packages'' ''work'' [] [] newStats []))) = {''P1''}
   \<and> snd (snd (processPackages envSyncerDown (Config manifestPlain) True ModeUpdateAndDeploy
                   ''packages'' ''work'' [] [] newStats []))
       = [PackageSyncerExec ''P1'' ''P1'' ''P1'' ''P1'',
          CopyDir ''packages/P1/A1'' ''work/A1'',
          SingleArtifactToTenant ''A1'' ''A1'' ''Integration'' ''P1'']"
  by code_simp

lemma processPackageList_append:
  "processPackageList env config ap mode pdir wdir pf af (xs @ ys) st =
     processPackageList env config ap mode pdir wdir pf af ys
       (processPackageList env config ap mode pdir wdir pf af xs st)"
  by (induction xs arbitrary: st) simp_all

lemma updatePackage_error:
  "fst (updatePackage env pkg fid fname wdir calls) \<noteq> None \<longleftrightarrow>
     serviceDetailsNil env \<or> stagePackageJSONError env (ID pkg) \<noteq> None"
  by (auto simp: updatePackage_def Let_def split: option.splits)

lemma updatePackage_error_calls:
  "fst (updatePackage env pkg fid fname wdir calls) \<noteq> None \<Longrightarrow>
   snd (updatePackage env pkg fid fname wdir calls) = calls"
  by (auto simp: updatePackage_def Let_def split: option.splits if_splits)

lemma updateArtifact_failedPackages:
  "FailedPackageUpdates (fst (updateArtifact env pd fid fname pfx wd af a st))
     = FailedPackageUpdates (fst st)"
  by (cases st) (simp add: updateArtifact_def Let_def split: option.splits)

lemma updateArtifactList_failedPackages:
  "FailedPackageUpdates (fst (updateArtifactList env pd fid fname pfx wd af as st))
     = FailedPackageUpdates (fst st)"
  by (induction as arbitrary: st) (simp_all add: updateArtifact_failedPackages)

lemma updateArtifacts_failedPackages:
  "FailedPackageUpdates (fst (snd (updateArtifacts env pkg pd fid fname pfx wd af st)))
     = FailedPackageUpdates (fst st)"
  by (simp add: updateArtifacts_def updateArtifactList_failedPackages)

lemma artifacts_result_failedPackages:
  "FailedPackageUpdates
     (fst (case updateArtifacts env pkg pd fid fname pfx wd af st of
             (Some err, (s, c)) \<Rightarrow> (s\<lparr>UpdateFailures := UpdateFailures s + 1\<rparr>, c)
           | (None, (s, c)) \<Rightarrow> (s, c)))
   = FailedPackageUpdates (fst st)"
proof -
  obtain e s c where r: "updateArtifacts env pkg pd fid fname pfx wd af st = (e, (s, c))"
    by (metis prod.exhaust)
  with updateArtifacts_failedPackages [of env pkg pd fid fname pfx wd af st]
  have "FailedPackageUpdates s = FailedPackageUpdates (fst st)" by simp
  with r show ?thesis by (cases e) simp_all
qed

lemma processPackage_failedPackages:
  "FailedPackageUpdates (fst (snd (processPackage env config ap mode pdir wdir pf af pkg st)))
     = FailedPackageUpdates (fst (snd st))
   \<or> FailedPackageUpdates (fst (snd (processPackage env config ap mode pdir wdir pf af pkg st)))
     = insert (ID pkg) (FailedPackageUpdates (fst (snd st)))"
proof -
  obtain tasks stats calls where st: "st = (tasks, stats, calls)" by (cases st)
  show ?thesis
    unfolding st processPackage_def
    by (simp add: Let_def artifacts_result_failedPackages split: prod.splits option.splits)
qed

lemma processPackageList_failedPackages_mono:
  "FailedPackageUpdates (fst (snd st))
     \<subseteq> FailedPackageUpdates (fst (snd (processPackageList env config ap mode pdir wdir pf af pkgs st)))"
proof (induction pkgs arbitrary: st)
  case Nil
  then show ?case by simp
next
  case (Cons pkg pkgs)
  have "FailedPackageUpdates (fst (snd st))
          \<subseteq> FailedPackageUpdates (fst (snd (processPackage env config ap mode pdir wdir pf af pkg st)))"
    using processPackage_failedPackages [of env config ap mode pdir wdir pf af pkg st] by auto
  also have "\<dots> \<subseteq> FailedPackageUpdates (fst (snd (processPackageList env config ap mode pdir wdir pf af
                                  pkgs (processPackage env config ap mode pdir wdir pf af pkg st))))"
    by (rule Cons.IH)
  finally show ?case by simp
qed

lemma processPackage_update_fails:
  assumes "shouldInclude (ID p) pf" and "Sync p \<or> Deploy p"
    and "DirExists env (pathJoin pdir (PackageDir p))" and "mode \<noteq> ModeDeployOnly"
    and "serviceDetailsNil env \<or> stagePackageJSONError env (ID p) \<noteq> None"
  shows "processPackage env config ap mode pdir wdir pf af p (tasks, stats, calls) =
           (tasks,
            stats\<lparr>FailedPackageUpdates := insert (ID p) (FailedPackageUpdates stats),
                   PackagesFailed := PackagesFailed stats + 1\<rparr>,
            calls)"
proof -
  have up: "\<And>fid fname. updatePackage env p fid fname wdir calls =
      (Some (if serviceDetailsNil env then ''serviceDetails is nil - cannot update package''
             else the (stagePackageJSONError env (ID p))), calls)"
    using assms(5) by (auto simp: updatePackage_def Let_def split: option.splits)
  from assms(2) have on: "\<not> (\<not> Sync p \<and> \<not> Deploy p)" by blast
  show ?thesis
    by (simp add: processPackage_def Let_def up on assms(1,3,4))
qed

text \<open>
  C2, for the failures that \<^verbatim>\<open>updatePackage\<close> reports. In phase 1, in a mode other than
  deploy-only, let \<open>p\<close> be a package of the manifest that passes the filter, has \<open>sync\<close>
  or \<open>deploy\<close> set and whose directory exists, and let its metadata update fail before
  the syncer is called: the service
  details are missing or the package JSON cannot be staged (by \<open>updatePackage_error\<close> these
  are the cases in which \<^verbatim>\<open>updatePackage\<close> returns an error). Then the pass for \<open>p\<close> only
  puts its ID into the failed-packages set and counts it: no call is made for any of its
  artifacts and no deployment task is collected; the packages after \<open>p\<close> are processed
  from that state, and the ID of \<open>p\<close> is in the failed-packages set at the end.
\<close>

theorem failed_package_update_is_recorded_and_skipped:
  assumes "Packages config = pre @ p # post"
    and "shouldInclude (ID p) packageFilter"
    and "Sync p \<or> Deploy p"
    and "DirExists env (pathJoin packagesDir (PackageDir p))"
    and "mode \<noteq> ModeDeployOnly"
    and "serviceDetailsNil env \<or> stagePackageJSONError env (ID p) \<noteq> None"
    and "processPackageList env config applyPrefix mode packagesDir workDir packageFilter
           artifactFilter pre ([], stats0, calls0) = (tasks, stats, calls)"
  shows "processPackages env config applyPrefix mode packagesDir workDir packageFilter
           artifactFilter stats0 calls0
         = processPackageList env config applyPrefix mode packagesDir workDir packageFilter
             artifactFilter post
             (tasks,
              stats\<lparr>FailedPackageUpdates := insert (ID p) (FailedPackageUpdates stats),
                     PackagesFailed := PackagesFailed stats + 1\<rparr>,
              calls)
         \<and> ID p \<in> FailedPackageUpdates
                    (fst (snd (processPackages env config applyPrefix mode packagesDir workDir
                                 packageFilter artifactFilter stats0 calls0)))"
proof -
  let ?after = "(tasks,
                 stats\<lparr>FailedPackageUpdates := insert (ID p) (FailedPackageUpdates stats),
                        PackagesFailed := PackagesFailed stats + 1\<rparr>,
                 calls)"
  have eq: "processPackages env config applyPrefix mode packagesDir workDir packageFilter
              artifactFilter stats0 calls0
            = processPackageList env config applyPrefix mode packagesDir workDir packageFilter
                artifactFilter post ?after"
    using assms(7) processPackage_update_fails [OF assms(2-6)]
    by (simp add: processPackages_def assms(1) processPackageList_append)
  have "ID p \<in> FailedPackageUpdates (fst (snd ?after))" by simp
  with processPackageList_failedPackages_mono [of ?after]
  have "ID p \<in> FailedPackageUpdates
                  (fst (snd (processPackageList env config applyPrefix mode packagesDir workDir
                               packageFilter artifactFilter post ?after)))"
    by blast
  with eq show ?thesis by simp
qed

theorem failed_package_update_is_recorded_and_skipped_witness:
  "Packages manifestTwo = [] @ packageP1 # [packageP1\<lparr>ID := ''P2'', PackageDir := ''P2''\<rparr>]
   \<and> shouldInclude (ID packageP1) []
   \<and> (Sync packageP1 \<or> Deploy packageP1)
   \<and> DirExists envStageFails (pathJoin ''packages'' (PackageDir packageP1))
   \<and> ModeUpdateAndDeploy \<noteq> ModeDeployOnly
   \<and> (serviceDetailsNil envStageFails \<or> stagePackageJSONError envStageFails (ID packageP1) \<noteq> None)
   \<and> ID packageP1 \<in> FailedPackageUpdates
         (fst (snd (processPackages envStageFails manifestTwo True ModeUpdateAndDeploy
                      ''packages'' ''work'' [] [] newStats [])))
   \<and> snd (snd (processPackages envStageFails manifestTwo True ModeUpdateAndDeploy
                   ''packages'' ''work'' [] [] newStats []))
       = [PackageSyncerExec ''P2'' ''P2'' ''P2'' ''P2'',
          CopyDir ''packages/P2/A1'' ''work/A1'',
          SingleArtifactToTenant ''A1'' ''A1'' ''Integration'' ''P2'']"
proof -
  have h1: "Packages manifestTwo = [] @ packageP1 # [packageP1\<lparr>ID := ''P2'', PackageDir := ''P2''\<rparr>]"
    by (simp add: manifestTwo_def)
  have h2: "shouldInclude (ID packageP1) []" by (simp add: shouldInclude_def)
  have h3: "Sync packageP1 \<or> Deploy packageP1" by (simp add: packageP1_def)
  have h4: "DirExists envStageFails (pathJoin ''packages'' (PackageDir packageP1))"
    by (simp add: envStageFails_def envSyncerDown_def)
  have h5: "ModeUpdateAndDeploy \<noteq> ModeDeployOnly" by simp
  have h6: "serviceDetailsNil envStageFails \<or> stagePackageJSONError envStageFails (ID packageP1) \<noteq> None"
    by (simp add: envStageFails_def envSyncerDown_def packageP1_def)
  have h7: "processPackageList envStageFails manifestTwo True ModeUpdateAndDeploy ''packages'' ''work''
              [] [] [] ([], newStats, []) = ([], newStats, [])"
    by simp
  have calls: "snd (snd (processPackages envStageFails manifestTwo True ModeUpdateAndDeploy
                           ''packages'' ''work'' [] [] newStats []))
       = [PackageSyncerExec ''P2'' ''P2'' ''P2'' ''P2'',
          CopyDir ''packages/P2/A1'' ''work/A1'',
          SingleArtifactToTenant ''A1'' ''A1'' ''Integration'' ''P2'']"
    by code_simp
  from failed_package_update_is_recorded_and_skipped [OF h1 h2 h3 h4 h5 h6 h7] h1 h2 h3 h4 h5 h6 calls
  show ?thesis by blast
qed

subsection \<open>Full-sync deletion\<close>

text \<open>
  The calls that \<^verbatim>\<open>deleteRemoteEntriesNotInLocal\<close> adds to the log of the session: the
  listing of the string parameters, one delete for every listed string parameter of a
  managed partner that is not in the table of local IDs, then the same for the binary
  parameters unless the first listing failed.
\<close>

lemma send_issued: "snd (snd (send t c s)) = snd s @ [c]"
  by (simp add: send_def split: prod.splits)

lemma modify_issued: "snd (snd (modify t c s)) = snd s @ [c]"
proof -
  obtain r s' where r: "send t c s = (r, s')" by (cases "send t c s")
  with send_issued [of t c s] have "snd s' = snd s @ [c]" by simp
  with r show ?thesis by (cases r) (simp_all add: modify_def)
qed

lemma GetStringParameters_issued:
  "snd (snd (GetStringParameters t sel s)) = snd s @ [GetStringParametersCall sel]"
proof -
  obtain r s' where r: "send t (GetStringParametersCall sel) s = (r, s')"
    by (cases "send t (GetStringParametersCall sel) s")
  with send_issued [of t "GetStringParametersCall sel" s]
  have "snd s' = snd s @ [GetStringParametersCall sel]" by simp
  with r show ?thesis by (cases r) (simp_all add: GetStringParameters_def)
qed

lemma GetBinaryParameters_issued:
  "snd (snd (GetBinaryParameters t sel s)) = snd s @ [GetBinaryParametersCall sel]"
proof -
  obtain r s' where r: "send t (GetBinaryParametersCall sel) s = (r, s')"
    by (cases "send t (GetBinaryParametersCall sel) s")
  with send_issued [of t "GetBinaryParametersCall sel" s]
  have "snd s' = snd s @ [GetBinaryParametersCall sel]" by simp
  with r show ?thesis by (cases r) (simp_all add: GetBinaryParameters_def)
qed

lemma deleteStringParams_issued:
  "snd (snd (deleteStringParams t managed m params results s)) =
     snd s @ map (\<lambda>p. DeleteStringParameterCall (Pid p) (ParamID p))
               (filter (\<lambda>p. contains managed (Pid p) \<and> notInLocal m (Pid p) (ParamID p)) params)"
proof (induction params arbitrary: results s)
  case Nil
  then show ?case by simp
next
  case (Cons p ps)
  show ?case
  proof (cases "contains managed (Pid p) \<and> notInLocal m (Pid p) (ParamID p)")
    case False
    with Cons.IH show ?thesis by auto
  next
    case True
    obtain e s' where d: "DeleteStringParameter t (Pid p) (ParamID p) s = (e, s')"
      by (cases "DeleteStringParameter t (Pid p) (ParamID p) s")
    with modify_issued [of t "DeleteStringParameterCall (Pid p) (ParamID p)" s]
    have "snd s' = snd s @ [DeleteStringParameterCall (Pid p) (ParamID p)]"
      by (simp add: DeleteStringParameter_def)
    with True d Cons.IH show ?thesis by (cases e) (simp_all add: Let_def)
  qed
qed

lemma deleteBinaryParams_issued:
  "snd (snd (deleteBinaryParams t managed m params results s)) =
     snd s @ map (\<lambda>p. DeleteBinaryParameterCall (Pid p) (ParamID p))
               (filter (\<lambda>p. contains managed (Pid p) \<and> notInLocal m (Pid p) (ParamID p)) params)"
proof (induction params arbitrary: results s)
  case Nil
  then show ?case by simp
next
  case (Cons p ps)
  show ?case
  proof (cases "contains managed (Pid p) \<and> notInLocal m (Pid p) (ParamID p)")
    case False
    with Cons.IH show ?thesis by auto
  next
    case True
    obtain e s' where d: "DeleteBinaryParameter t (Pid p) (ParamID p) s = (e, s')"
      by (cases "DeleteBinaryParameter t (Pid p) (ParamID p) s")
    with modify_issued [of t "DeleteBinaryParameterCall (Pid p) (ParamID p)" s]
    have "snd s' = snd s @ [DeleteBinaryParameterCall (Pid p) (ParamID p)]"
      by (simp add: DeleteBinaryParameter_def)
    with True d Cons.IH show ?thesis by (cases e) (simp_all add: Let_def)
  qed
qed

lemma loadLocalParams_strings:
  "fst (loadLocalParams parseJSON b64 pd pids (ms, mb)) pid =
     (if pid \<in> set pids
      then (case ReadStringParameters pd pid of
              Inl err \<Rightarrow> ms pid
            | Inr ps \<Rightarrow> Some ((case ms pid of None \<Rightarrow> {} | Some known \<Rightarrow> known) \<union> ParamID ` set ps))
      else ms pid)"
  by (induction pids arbitrary: ms mb)
     (auto simp: Let_def addLocalIDs_def split: sum.splits option.splits)

lemma loadLocalParams_binaries:
  "snd (loadLocalParams parseJSON b64 pd pids (ms, mb)) pid =
     (if pid \<in> set pids
      then (case ReadBinaryParameters parseJSON b64 pd pid of
              Inl err \<Rightarrow> mb pid
            | Inr ps \<Rightarrow> Some ((case mb pid of None \<Rightarrow> {} | Some known \<Rightarrow> known) \<union> ParamID ` set ps))
      else mb pid)"
  by (induction pids arbitrary: ms mb)
     (auto simp: Let_def addLocalIDs_def split: sum.splits option.splits)

lemma contains_set: "contains xs x \<longleftrightarrow> x \<in> set xs"
  by (auto simp: contains_def list_ex_iff)

lemma deleteRemoteEntriesNotInLocal_issued:
  "\<exists>(rs :: StringParameter list) rb. snd (snd (deleteRemoteEntriesNotInLocal t parseJSON b64 pd managed s)) =
     snd s @ [GetStringParametersCall ''Pid,Id'']
     @ map (\<lambda>p. DeleteStringParameterCall (Pid p) (ParamID p))
         (filter (\<lambda>p. contains managed (Pid p)
                      \<and> notInLocal (fst (loadLocalParams parseJSON b64 pd managed (Map.empty, Map.empty)))
                            (Pid p) (ParamID p)) rs)
     @ rb
     \<and> (rb = []
        \<or> (\<exists>bs :: BinaryParameter list. rb = GetBinaryParametersCall ''Pid,Id''
                 # map (\<lambda>p. DeleteBinaryParameterCall (Pid p) (ParamID p))
                     (filter (\<lambda>p. contains managed (Pid p)
                                  \<and> notInLocal (snd (loadLocalParams parseJSON b64 pd managed
                                                            (Map.empty, Map.empty)))
                                        (Pid p) (ParamID p)) bs)))"
proof -
  obtain ls lb where l: "loadLocalParams parseJSON b64 pd managed (Map.empty, Map.empty) = (ls, lb)"
    by (cases "loadLocalParams parseJSON b64 pd managed (Map.empty, Map.empty)")
  obtain r1 s1 where g1: "GetStringParameters t ''Pid,Id'' s = (r1, s1)"
    by (cases "GetStringParameters t ''Pid,Id'' s")
  with GetStringParameters_issued [of t "''Pid,Id''" s]
  have s1: "snd s1 = snd s @ [GetStringParametersCall ''Pid,Id'']" by simp
  show ?thesis
  proof (cases r1)
    case (Inl err)
    with l g1 s1
    have "snd (snd (deleteRemoteEntriesNotInLocal t parseJSON b64 pd managed s)) =
        snd s @ [GetStringParametersCall ''Pid,Id'']
        @ map (\<lambda>p. DeleteStringParameterCall (Pid p) (ParamID p))
            (filter (\<lambda>p. contains managed (Pid p) \<and> notInLocal ls (Pid p) (ParamID p))
               ([] :: StringParameter list))
        @ []"
      by (simp add: deleteRemoteEntriesNotInLocal_def)
    then show ?thesis
      unfolding l fst_conv snd_conv
      by (intro exI [of _ "[] :: StringParameter list"] exI [of _ "[] :: apiCall list"]) simp
  next
    case (Inr rs)
    obtain res1 s2 where d1: "deleteStringParams t managed ls rs
        (emptyResult\<lparr>Deleted := [], Errors := []\<rparr>) s1 = (res1, s2)"
      by (cases "deleteStringParams t managed ls rs (emptyResult\<lparr>Deleted := [], Errors := []\<rparr>) s1")
    with deleteStringParams_issued [of t managed ls rs "emptyResult\<lparr>Deleted := [], Errors := []\<rparr>" s1] s1
    have s2: "snd s2 = snd s @ [GetStringParametersCall ''Pid,Id'']
        @ map (\<lambda>p. DeleteStringParameterCall (Pid p) (ParamID p))
            (filter (\<lambda>p. contains managed (Pid p) \<and> notInLocal ls (Pid p) (ParamID p)) rs)"
      by simp
    obtain r2 s3 where g2: "GetBinaryParameters t ''Pid,Id'' s2 = (r2, s3)"
      by (cases "GetBinaryParameters t ''Pid,Id'' s2")
    with GetBinaryParameters_issued [of t "''Pid,Id''" s2]
    have s3: "snd s3 = snd s2 @ [GetBinaryParametersCall ''Pid,Id'']" by simp
    show ?thesis
    proof (cases r2)
      case (Inl err)
      with l g1 Inr d1 g2 s2 s3
      have "snd (snd (deleteRemoteEntriesNotInLocal t parseJSON b64 pd managed s)) =
          snd s @ [GetStringParametersCall ''Pid,Id'']
          @ map (\<lambda>p. DeleteStringParameterCall (Pid p) (ParamID p))
              (filter (\<lambda>p. contains managed (Pid p) \<and> notInLocal ls (Pid p) (ParamID p)) rs)
          @ GetBinaryParametersCall ''Pid,Id''
            # map (\<lambda>p. DeleteBinaryParameterCall (Pid p) (ParamID p))
                (filter (\<lambda>p. contains managed (Pid p) \<and> notInLocal lb (Pid p) (ParamID p))
                   ([] :: BinaryParameter list))"
        (is "_ = _ @ _ @ _ @ ?rb")
        by (simp add: deleteRemoteEntriesNotInLocal_def)
      moreover have "\<exists>bs :: BinaryParameter list. ?rb = GetBinaryParametersCall ''Pid,Id''
                 # map (\<lambda>p. DeleteBinaryParameterCall (Pid p) (ParamID p))
                     (filter (\<lambda>p. contains managed (Pid p) \<and> notInLocal lb (Pid p) (ParamID p)) bs)"
        by (rule exI [of _ "[]"]) simp
      ultimately show ?thesis
        unfolding l fst_conv snd_conv
        by (intro exI [of _ rs] exI [of _ ?rb] conjI disjI2)
    next
      case bs: (Inr bs)
      obtain res2 s4 where d2: "deleteBinaryParams t managed lb bs res1 s3 = (res2, s4)"
        by (cases "deleteBinaryParams t managed lb bs res1 s3")
      with deleteBinaryParams_issued [of t managed lb bs res1 s3] s3 s2
      have s4: "snd s4 = snd s @ [GetStringParametersCall ''Pid,Id'']
          @ map (\<lambda>p. DeleteStringParameterCall (Pid p) (ParamID p))
              (filter (\<lambda>p. contains managed (Pid p) \<and> notInLocal ls (Pid p) (ParamID p)) rs)
          @ GetBinaryParametersCall ''Pid,Id''
            # map (\<lambda>p. DeleteBinaryParameterCall (Pid p) (ParamID p))
                (filter (\<lambda>p. contains managed (Pid p) \<and> notInLocal lb (Pid p) (ParamID p)) bs)"
        by simp
      with l g1 Inr d1 g2 bs d2
      have "snd (snd (deleteRemoteEntriesNotInLocal t parseJSON b64 pd managed s)) =
          snd s @ [GetStringParametersCall ''Pid,Id'']
          @ map (\<lambda>p. DeleteStringParameterCall (Pid p) (ParamID p))
              (filter (\<lambda>p. contains managed (Pid p) \<and> notInLocal ls (Pid p) (ParamID p)) rs)
          @ GetBinaryParametersCall ''Pid,Id''
            # map (\<lambda>p. DeleteBinaryParameterCall (Pid p) (ParamID p))
                (filter (\<lambda>p. contains managed (Pid p) \<and> notInLocal lb (Pid p) (ParamID p)) bs)"
        (is "_ = _ @ _ @ _ @ ?rb")
        by (simp add: deleteRemoteEntriesNotInLocal_def)
      moreover have "\<exists>bs :: BinaryParameter list. ?rb = GetBinaryParametersCall ''Pid,Id''
                 # map (\<lambda>p. DeleteBinaryParameterCall (Pid p) (ParamID p))
                     (filter (\<lambda>p. contains managed (Pid p) \<and> notInLocal lb (Pid p) (ParamID p)) bs)"
        by (rule exI [of _ bs]) simp
      ultimately show ?thesis
        unfolding l fst_conv snd_conv
        by (intro exI [of _ rs] exI [of _ ?rb] conjI disjI2)
    qed
  qed
qed

text \<open>
  A delete sent by \<^verbatim>\<open>deleteRemoteEntriesNotInLocal\<close> is for a managed partner, and if the
  local parameters of that partner were read, for an ID that is not among them.
\<close>

lemma full_sync_deletes_strings_of_managed_partners:
  assumes "DeleteStringParameterCall pid ident
             \<in> set (snd (snd (deleteRemoteEntriesNotInLocal t parseJSON b64 pd managed s)))"
    and "DeleteStringParameterCall pid ident \<notin> set (snd s)"
  shows "pid \<in> set managed
         \<and> (\<forall>ps. ReadStringParameters pd pid = Inr ps \<longrightarrow> ident \<notin> ParamID ` set ps)"
proof -
  let ?ls = "fst (loadLocalParams parseJSON b64 pd managed (Map.empty, Map.empty))"
  from deleteRemoteEntriesNotInLocal_issued [of t parseJSON b64 pd managed s]
  obtain rs :: "StringParameter list" and rb where tr: "snd (snd (deleteRemoteEntriesNotInLocal t parseJSON b64 pd managed s)) =
       snd s @ [GetStringParametersCall ''Pid,Id'']
       @ map (\<lambda>p. DeleteStringParameterCall (Pid p) (ParamID p))
           (filter (\<lambda>p. contains managed (Pid p) \<and> notInLocal ?ls (Pid p) (ParamID p)) rs)
       @ rb"
    and rb0: "rb = [] \<or> (\<exists>bs :: BinaryParameter list. rb = GetBinaryParametersCall ''Pid,Id''
                 # map (\<lambda>p. DeleteBinaryParameterCall (Pid p) (ParamID p))
                     (filter (\<lambda>p. contains managed (Pid p)
                          \<and> notInLocal (snd (loadLocalParams parseJSON b64 pd managed (Map.empty, Map.empty)))
                                (Pid p) (ParamID p)) bs))"
    by blast
  from rb0 have rb: "\<forall>c \<in> set rb. \<forall>a b. c \<noteq> DeleteStringParameterCall a b"
    by auto
  from assms tr rb
  have "DeleteStringParameterCall pid ident
          \<in> set (map (\<lambda>p. DeleteStringParameterCall (Pid p) (ParamID p))
                  (filter (\<lambda>p. contains managed (Pid p) \<and> notInLocal ?ls (Pid p) (ParamID p)) rs))"
    by auto
  then have "contains managed pid \<and> notInLocal ?ls pid ident"
    by auto
  then have m: "pid \<in> set managed" and n: "notInLocal ?ls pid ident"
    by (simp_all add: contains_set)
  have "?ls pid = (case ReadStringParameters pd pid of Inl err \<Rightarrow> None
                   | Inr ps \<Rightarrow> Some (ParamID ` set ps))"
    using m loadLocalParams_strings [of parseJSON b64 pd managed Map.empty Map.empty pid]
    by (simp split: sum.splits)
  with n m show ?thesis by (auto simp: notInLocal_def)
qed

lemma full_sync_deletes_binaries_of_managed_partners:
  assumes "DeleteBinaryParameterCall pid ident
             \<in> set (snd (snd (deleteRemoteEntriesNotInLocal t parseJSON b64 pd managed s)))"
    and "DeleteBinaryParameterCall pid ident \<notin> set (snd s)"
  shows "pid \<in> set managed
         \<and> (\<forall>ps. ReadBinaryParameters parseJSON b64 pd pid = Inr ps \<longrightarrow> ident \<notin> ParamID ` set ps)"
proof -
  let ?lb = "snd (loadLocalParams parseJSON b64 pd managed (Map.empty, Map.empty))"
  from deleteRemoteEntriesNotInLocal_issued [of t parseJSON b64 pd managed s]
  obtain xs and bs :: "BinaryParameter list"
    where tr: "snd (snd (deleteRemoteEntriesNotInLocal t parseJSON b64 pd managed s)) =
       snd s @ xs
       @ map (\<lambda>p. DeleteBinaryParameterCall (Pid p) (ParamID p))
           (filter (\<lambda>p. contains managed (Pid p) \<and> notInLocal ?lb (Pid p) (ParamID p)) bs)"
    and xs: "\<forall>c \<in> set xs. \<forall>a b. c \<noteq> DeleteBinaryParameterCall a b"
  proof -
    from deleteRemoteEntriesNotInLocal_issued [of t parseJSON b64 pd managed s]
    obtain rs :: "StringParameter list" and rb where a: "snd (snd (deleteRemoteEntriesNotInLocal t parseJSON b64 pd managed s)) =
         snd s @ [GetStringParametersCall ''Pid,Id'']
         @ map (\<lambda>p. DeleteStringParameterCall (Pid p) (ParamID p))
             (filter (\<lambda>p. contains managed (Pid p)
                  \<and> notInLocal (fst (loadLocalParams parseJSON b64 pd managed (Map.empty, Map.empty)))
                        (Pid p) (ParamID p)) rs)
         @ rb"
      and b: "rb = [] \<or> (\<exists>bs :: BinaryParameter list. rb = GetBinaryParametersCall ''Pid,Id''
                 # map (\<lambda>p. DeleteBinaryParameterCall (Pid p) (ParamID p))
                     (filter (\<lambda>p. contains managed (Pid p) \<and> notInLocal ?lb (Pid p) (ParamID p)) bs))"
      by blast
    let ?pre = "[GetStringParametersCall ''Pid,Id'']
         @ map (\<lambda>p. DeleteStringParameterCall (Pid p) (ParamID p))
             (filter (\<lambda>p. contains managed (Pid p)
                  \<and> notInLocal (fst (loadLocalParams parseJSON b64 pd managed (Map.empty, Map.empty)))
                        (Pid p) (ParamID p)) rs)"
    from b show ?thesis
    proof
      assume "rb = []"
      with a show ?thesis by (intro that [of ?pre "[]"]) auto
    next
      assume "\<exists>bs :: BinaryParameter list. rb = GetBinaryParametersCall ''Pid,Id''
                 # map (\<lambda>p. DeleteBinaryParameterCall (Pid p) (ParamID p))
                     (filter (\<lambda>p. contains managed (Pid p) \<and> notInLocal ?lb (Pid p) (ParamID p)) bs)"
      then obtain bs :: "BinaryParameter list" where "rb = GetBinaryParametersCall ''Pid,Id''
                 # map (\<lambda>p. DeleteBinaryParameterCall (Pid p) (ParamID p))
                     (filter (\<lambda>p. contains managed (Pid p) \<and> notInLocal ?lb (Pid p) (ParamID p)) bs)"
        by blast
      with a show ?thesis
        by (intro that [of "?pre @ [GetBinaryParametersCall ''Pid,Id'']" bs]) auto
    qed
  qed
  from assms tr xs
  have "DeleteBinaryParameterCall pid ident
          \<in> set (map (\<lambda>p. DeleteBinaryParameterCall (Pid p) (ParamID p))
                  (filter (\<lambda>p. contains managed (Pid p) \<and> notInLocal ?lb (Pid p) (ParamID p)) bs))"
    by auto
  then have "contains managed pid \<and> notInLocal ?lb pid ident"
    by auto
  then have m: "pid \<in> set managed" and n: "notInLocal ?lb pid ident"
    by (simp_all add: contains_set)
  have "?lb pid = (case ReadBinaryParameters parseJSON b64 pd pid of Inl err \<Rightarrow> None
                   | Inr ps \<Rightarrow> Some (ParamID ` set ps))"
    using m loadLocalParams_binaries [of parseJSON b64 pd managed Map.empty Map.empty pid]
    by (simp split: sum.splits)
  with n m show ?thesis by (auto simp: notInLocal_def)
qed

text \<open>
  The two deploy phases that run before the deletion send no delete: the deletes in the log
  after \<^verbatim>\<open>deployStringParameters\<close> and \<^verbatim>\<open>deployBinaryParameters\<close> are those that were
  there before.
\<close>

lemma GetStringParameter_issued:
  "snd (snd (GetStringParameter t pid ident s)) = snd s @ [GetStringParameterCall pid ident]"
proof -
  obtain r s' where r: "send t (GetStringParameterCall pid ident) s = (r, s')"
    by (cases "send t (GetStringParameterCall pid ident) s")
  with send_issued [of t "GetStringParameterCall pid ident" s]
  have "snd s' = snd s @ [GetStringParameterCall pid ident]" by simp
  with r show ?thesis by (cases r) (simp_all add: GetStringParameter_def)
qed

lemma GetBinaryParameter_issued:
  "snd (snd (GetBinaryParameter t pid ident s)) = snd s @ [GetBinaryParameterCall pid ident]"
proof -
  obtain r s' where r: "send t (GetBinaryParameterCall pid ident) s = (r, s')"
    by (cases "send t (GetBinaryParameterCall pid ident) s")
  with send_issued [of t "GetBinaryParameterCall pid ident" s]
  have "snd s' = snd s @ [GetBinaryParameterCall pid ident]" by simp
  with r show ?thesis by (cases r) (simp_all add: GetBinaryParameter_def)
qed

lemma deployStringParams_deletes:
  "filter isDeleteCall (snd (snd (deployStringParams t replace dryRun params results s)))
     = filter isDeleteCall (snd s)"
proof (induction params arbitrary: results s replace dryRun)
  case Nil
  then show ?case by simp
next
  case (Cons p ps)
  obtain r s1 where g: "GetStringParameter t (Pid p) (ParamID p) s = (r, s1)"
    by (cases "GetStringParameter t (Pid p) (ParamID p) s")
  with GetStringParameter_issued [of t "Pid p" "ParamID p" s]
  have s1: "filter isDeleteCall (snd s1) = filter isDeleteCall (snd s)" by simp
  obtain e2 s2 where c: "CreateStringParameter t p s1 = (e2, s2)"
    by (cases "CreateStringParameter t p s1")
  with modify_issued [of t "CreateStringParameterCall p" s1] s1
  have s2: "filter isDeleteCall (snd s2) = filter isDeleteCall (snd s)"
    by (simp add: CreateStringParameter_def)
  obtain e3 s3 where u: "UpdateStringParameter t p s1 = (e3, s3)"
    by (cases "UpdateStringParameter t p s1")
  with modify_issued [of t "UpdateStringParameterCall p" s1] s1
  have s3: "filter isDeleteCall (snd s3) = filter isDeleteCall (snd s)"
    by (simp add: UpdateStringParameter_def)
  show ?case
    by (simp add: g c u s1 s2 s3 Cons.IH Let_def split: sum.splits option.splits)
qed

lemma deployBinaryParams_deletes:
  "filter isDeleteCall (snd (snd (deployBinaryParams t replace dryRun params results s)))
     = filter isDeleteCall (snd s)"
proof (induction params arbitrary: results s replace dryRun)
  case Nil
  then show ?case by simp
next
  case (Cons p ps)
  obtain r s1 where g: "GetBinaryParameter t (Pid p) (ParamID p) s = (r, s1)"
    by (cases "GetBinaryParameter t (Pid p) (ParamID p) s")
  with GetBinaryParameter_issued [of t "Pid p" "ParamID p" s]
  have s1: "filter isDeleteCall (snd s1) = filter isDeleteCall (snd s)" by simp
  obtain e2 s2 where c: "CreateBinaryParameter t p s1 = (e2, s2)"
    by (cases "CreateBinaryParameter t p s1")
  with modify_issued [of t "CreateBinaryParameterCall p" s1] s1
  have s2: "filter isDeleteCall (snd s2) = filter isDeleteCall (snd s)"
    by (simp add: CreateBinaryParameter_def)
  obtain e3 s3 where u: "UpdateBinaryParameter t p s1 = (e3, s3)"
    by (cases "UpdateBinaryParameter t p s1")
  with modify_issued [of t "UpdateBinaryParameterCall p" s1] s1
  have s3: "filter isDeleteCall (snd s3) = filter isDeleteCall (snd s)"
    by (simp add: UpdateBinaryParameter_def)
  show ?case
    by (simp add: g c u s1 s2 s3 Cons.IH Let_def split: sum.splits option.splits)
qed

lemma deployStringPIDs_deletes:
  "filter isDeleteCall (snd (snd (deployStringPIDs t pd replace dryRun pids results s)))
     = filter isDeleteCall (snd s)"
proof (induction pids arbitrary: results s)
  case Nil
  then show ?case by simp
next
  case (Cons pid pids)
  show ?case
  proof (cases "ReadStringParameters pd pid")
    case (Inl err)
    with Cons.IH show ?thesis by simp
  next
    case (Inr ps)
    obtain res' s' where d: "deployStringParams t replace dryRun ps results s = (res', s')"
      by (cases "deployStringParams t replace dryRun ps results s")
    with deployStringParams_deletes [of t replace dryRun ps results s]
    have "filter isDeleteCall (snd s') = filter isDeleteCall (snd s)" by simp
    with Inr d Cons.IH show ?thesis by simp
  qed
qed

lemma deployBinaryPIDs_deletes:
  "filter isDeleteCall
     (snd (snd (deployBinaryPIDs t parseJSON b64 pd replace dryRun pids results s)))
     = filter isDeleteCall (snd s)"
proof (induction pids arbitrary: results s)
  case Nil
  then show ?case by simp
next
  case (Cons pid pids)
  show ?case
  proof (cases "ReadBinaryParameters parseJSON b64 pd pid")
    case (Inl err)
    with Cons.IH show ?thesis by simp
  next
    case (Inr ps)
    obtain res' s' where d: "deployBinaryParams t replace dryRun ps results s = (res', s')"
      by (cases "deployBinaryParams t replace dryRun ps results s")
    with deployBinaryParams_deletes [of t replace dryRun ps results s]
    have "filter isDeleteCall (snd s') = filter isDeleteCall (snd s)" by simp
    with Inr d Cons.IH show ?thesis by simp
  qed
qed

lemma deployStringParameters_deletes:
  "filter isDeleteCall (snd (snd (deployStringParameters t pd replace dryRun flt s)))
     = filter isDeleteCall (snd s)"
proof (cases "GetLocalPIDs pd")
  case (Inl err)
  then show ?thesis by (simp add: deployStringParameters_def)
next
  case (Inr localPIDs)
  let ?pids = "if length flt > 0 then filterPIDs localPIDs flt else localPIDs"
  obtain res s' where d: "deployStringPIDs t pd replace dryRun ?pids emptyResult s = (res, s')"
    by (cases "deployStringPIDs t pd replace dryRun ?pids emptyResult s")
  with deployStringPIDs_deletes [of t pd replace dryRun ?pids emptyResult s]
  have "filter isDeleteCall (snd s') = filter isDeleteCall (snd s)" by simp
  with Inr d show ?thesis by (simp add: deployStringParameters_def Let_def)
qed

lemma deployBinaryParameters_deletes:
  "filter isDeleteCall
     (snd (snd (deployBinaryParameters t parseJSON b64 pd replace dryRun flt s)))
     = filter isDeleteCall (snd s)"
proof (cases "GetLocalPIDs pd")
  case (Inl err)
  then show ?thesis by (simp add: deployBinaryParameters_def)
next
  case (Inr localPIDs)
  let ?pids = "if length flt > 0 then filterPIDs localPIDs flt else localPIDs"
  obtain res s'
    where d: "deployBinaryPIDs t parseJSON b64 pd replace dryRun ?pids emptyResult s = (res, s')"
    by (cases "deployBinaryPIDs t parseJSON b64 pd replace dryRun ?pids emptyResult s")
  with deployBinaryPIDs_deletes [of t parseJSON b64 pd replace dryRun ?pids emptyResult s]
  have "filter isDeleteCall (snd s') = filter isDeleteCall (snd s)" by simp
  with Inr d show ?thesis by (simp add: deployBinaryParameters_def Let_def)
qed

lemma filterPIDs_subset: "set (filterPIDs pids flt) \<subseteq> set pids"
  by (auto simp: filterPIDs_def)

text \<open>
  A run of \<^verbatim>\<open>deployPartnerDirectory\<close> either ends with the deletion phase, entered with
  \<open>fullSync\<close> set and \<open>dryRun\<close> unset on the managed partners, or sends no delete at all.
  So a delete is sent only with \<open>fullSync\<close> and without \<open>dryRun\<close>, only for a partner
  that has a local directory, and, when the local parameters of that partner can be read,
  only for an ID that is not among them.
\<close>

lemma deployPartnerDirectory_phases:
  "(\<exists>localPIDs s2.
       GetLocalPIDs pd = Inr localPIDs
     \<and> fullSync \<and> \<not> dryRun
     \<and> filter isDeleteCall (snd s2) = filter isDeleteCall (snd s)
     \<and> snd (snd (deployPartnerDirectory t parseJSON b64 pd replace fullSync dryRun flt s))
         = snd (snd (deleteRemoteEntriesNotInLocal t parseJSON b64 pd
                       (if length flt > 0 then filterPIDs localPIDs flt else localPIDs) s2)))
   \<or> filter isDeleteCall
         (snd (snd (deployPartnerDirectory t parseJSON b64 pd replace fullSync dryRun flt s)))
       = filter isDeleteCall (snd s)"
proof (cases "GetLocalPIDs pd")
  case (Inl err)
  then show ?thesis by (simp add: deployPartnerDirectory_def)
next
  case (Inr localPIDs)
  let ?managed = "if length flt > 0 then filterPIDs localPIDs flt else localPIDs"
  obtain r1 s1 where d1: "deployStringParameters t pd replace dryRun flt s = (r1, s1)"
    by (cases "deployStringParameters t pd replace dryRun flt s")
  with deployStringParameters_deletes [of t pd replace dryRun flt s]
  have s1: "filter isDeleteCall (snd s1) = filter isDeleteCall (snd s)" by simp
  obtain r2 s2 where d2: "deployBinaryParameters t parseJSON b64 pd replace dryRun flt s1 = (r2, s2)"
    by (cases "deployBinaryParameters t parseJSON b64 pd replace dryRun flt s1")
  with deployBinaryParameters_deletes [of t parseJSON b64 pd replace dryRun flt s1] s1
  have s2: "filter isDeleteCall (snd s2) = filter isDeleteCall (snd s)" by simp
  obtain r3 s3 where d3: "deleteRemoteEntriesNotInLocal t parseJSON b64 pd ?managed s2 = (r3, s3)"
    by (cases "deleteRemoteEntriesNotInLocal t parseJSON b64 pd ?managed s2")
  show ?thesis
  proof (cases "fullSync \<and> \<not> dryRun
                \<and> \<not> (length flt > 0 \<and> length (filterPIDs localPIDs flt) = 0)
                \<and> (\<exists>x. r1 = Inr x) \<and> (\<exists>y. r2 = Inr y)")
    case True
    then obtain x y where "r1 = Inr x" "r2 = Inr y" by blast
    with True Inr d1 d2 d3
    have "snd (snd (deployPartnerDirectory t parseJSON b64 pd replace fullSync dryRun flt s))
            = snd (snd (deleteRemoteEntriesNotInLocal t parseJSON b64 pd ?managed s2))"
      by (cases r3) (auto simp: deployPartnerDirectory_def Let_def)
    with True Inr s2 show ?thesis by blast
  next
    case False
    with Inr d1 d2 d3 s1 s2
    have "filter isDeleteCall
            (snd (snd (deployPartnerDirectory t parseJSON b64 pd replace fullSync dryRun flt s)))
          = filter isDeleteCall (snd s)"
      by (cases r1; cases r2) (auto simp: deployPartnerDirectory_def Let_def)
    then show ?thesis ..
  qed
qed

lemma deployPartnerDirectory_deletes_only_on_full_sync:
  assumes "\<not> (fullSync \<and> \<not> dryRun)"
  shows "filter isDeleteCall
           (snd (snd (deployPartnerDirectory t parseJSON b64 pd replace fullSync dryRun flt s)))
         = filter isDeleteCall (snd s)"
  using deployPartnerDirectory_phases [of pd fullSync dryRun s t parseJSON b64 replace flt] assms
  by blast

lemma deployPartnerDirectory_binary_delete_scope:
  assumes "DeleteBinaryParameterCall pid ident
             \<in> set (snd (snd (deployPartnerDirectory t parseJSON b64 pd replace fullSync dryRun
                                flt s)))"
    and "DeleteBinaryParameterCall pid ident \<notin> set (snd s)"
  shows "fullSync \<and> \<not> dryRun
         \<and> (\<exists>localPIDs. GetLocalPIDs pd = Inr localPIDs \<and> pid \<in> set localPIDs)
         \<and> (\<forall>ps. ReadBinaryParameters parseJSON b64 pd pid = Inr ps
                 \<longrightarrow> ident \<notin> ParamID ` set ps)"
proof -
  let ?c = "DeleteBinaryParameterCall pid ident"
  have mem: "\<And>xs. ?c \<in> set xs \<longleftrightarrow> ?c \<in> set (filter isDeleteCall xs)" by simp
  from assms mem
  have ne: "filter isDeleteCall
              (snd (snd (deployPartnerDirectory t parseJSON b64 pd replace fullSync dryRun flt s)))
            \<noteq> filter isDeleteCall (snd s)"
    by metis
  with deployPartnerDirectory_phases [of pd fullSync dryRun s t parseJSON b64 replace flt]
  obtain localPIDs s2 where l: "GetLocalPIDs pd = Inr localPIDs"
    and f: "fullSync \<and> \<not> dryRun"
    and s2: "filter isDeleteCall (snd s2) = filter isDeleteCall (snd s)"
    and tr: "snd (snd (deployPartnerDirectory t parseJSON b64 pd replace fullSync dryRun flt s))
         = snd (snd (deleteRemoteEntriesNotInLocal t parseJSON b64 pd
                       (if length flt > 0 then filterPIDs localPIDs flt else localPIDs) s2))"
    by blast
  let ?managed = "if length flt > 0 then filterPIDs localPIDs flt else localPIDs"
  from assms(2) s2 mem have "?c \<notin> set (snd s2)" by metis
  with assms(1) tr
    full_sync_deletes_binaries_of_managed_partners [of pid ident t parseJSON b64 pd ?managed s2]
  have "pid \<in> set ?managed"
    and r: "\<forall>ps. ReadBinaryParameters parseJSON b64 pd pid = Inr ps \<longrightarrow> ident \<notin> ParamID ` set ps"
    by simp_all
  with filterPIDs_subset [of localPIDs flt] have "pid \<in> set localPIDs"
    by (auto split: if_splits)
  with l f r show ?thesis by blast
qed

lemma deployPartnerDirectory_string_delete_scope:
  assumes "DeleteStringParameterCall pid ident
             \<in> set (snd (snd (deployPartnerDirectory t parseJSON b64 pd replace fullSync dryRun
                                flt s)))"
    and "DeleteStringParameterCall pid ident \<notin> set (snd s)"
  shows "fullSync \<and> \<not> dryRun
         \<and> (\<exists>localPIDs. GetLocalPIDs pd = Inr localPIDs \<and> pid \<in> set localPIDs)
         \<and> (\<forall>ps. ReadStringParameters pd pid = Inr ps \<longrightarrow> ident \<notin> ParamID ` set ps)"
proof -
  let ?c = "DeleteStringParameterCall pid ident"
  have mem: "\<And>xs. ?c \<in> set xs \<longleftrightarrow> ?c \<in> set (filter isDeleteCall xs)" by simp
  from assms mem
  have ne: "filter isDeleteCall
              (snd (snd (deployPartnerDirectory t parseJSON b64 pd replace fullSync dryRun flt s)))
            \<noteq> filter isDeleteCall (snd s)"
    by metis
  with deployPartnerDirectory_phases [of pd fullSync dryRun s t parseJSON b64 replace flt]
  obtain localPIDs s2 where l: "GetLocalPIDs pd = Inr localPIDs"
    and f: "fullSync \<and> \<not> dryRun"
    and s2: "filter isDeleteCall (snd s2) = filter isDeleteCall (snd s)"
    and tr: "snd (snd (deployPartnerDirectory t parseJSON b64 pd replace fullSync dryRun flt s))
         = snd (snd (deleteRemoteEntriesNotInLocal t parseJSON b64 pd
                       (if length flt > 0 then filterPIDs localPIDs flt else localPIDs) s2))"
    by blast
  let ?managed = "if length flt > 0 then filterPIDs localPIDs flt else localPIDs"
  from assms(2) s2 mem have "?c \<notin> set (snd s2)" by metis
  with assms(1) tr
    full_sync_deletes_strings_of_managed_partners [of pid ident t parseJSON b64 pd ?managed s2]
  have "pid \<in> set ?managed"
    and r: "\<forall>ps. ReadStringParameters pd pid = Inr ps \<longrightarrow> ident \<notin> ParamID ` set ps"
    by simp_all
  with filterPIDs_subset [of localPIDs flt] have "pid \<in> set localPIDs"
    by (auto split: if_splits)
  with l f r show ?thesis by blast
qed

text \<open>
  C3. The claim is that every delete of the full-sync phase targets a remote record of a
  managed partner whose parameter ID is absent from that partner's local files. In
  \<^verbatim>\<open>deleteRemoteEntriesNotInLocal\<close> a partner whose local parameters cannot be read is only
  logged and gets no entry in the table of local IDs, and the deletion loop takes the
  missing entry (\<^verbatim>\<open>localBinaryParams[param.Pid] == nil\<close>) as "nothing is local". Below, the
  partner \<open>P1\<close> has the local file \<open>x.xml\<close>, so the parameter \<open>x\<close> is present locally, but
  its sidecar is not JSON and \<^verbatim>\<open>ReadBinaryParameters\<close> fails. The run with \<open>fullSync\<close> and
  without \<open>dryRun\<close> deletes the remote \<open>P1/x\<close>. The record \<open>P2/y\<close> of the partner
  without a local directory is kept.
\<close>

theorem full_sync_deletes_parameter_present_locally:
  "GetLocalPIDs localBrokenSidecar = Inr [''P1'']
   \<and> pidDir localBrokenSidecar ''P1''
       = Some \<lparr>stringProperties = None,
                binaryDir = Some \<lparr>readDirError = None,
                                  entries = [(''_metadata.json'', RegularFile (File ''{'')),
                                             (''x.xml'', RegularFile (File ''<a/>''))]\<rparr>\<rparr>
   \<and> removeFileExtension ''x.xml'' = ''x''
   \<and> ReadBinaryParameters rejectJSON id localBrokenSidecar ''P1''
       = Inl ''failed to parse metadata''
   \<and> deployPartnerDirectory kvTenant rejectJSON id localBrokenSidecar False True False []
         (\<lparr>rStrings = [],
            rBinaries = [\<lparr>Pid = ''P1'', ParamID = ''x'', Value = ''<a/>'', ContentType = ''xml''\<rparr>,
                         \<lparr>Pid = ''P2'', ParamID = ''y'', Value = ''<b/>'', ContentType = ''xml''\<rparr>]\<rparr>,
          [])
     = (Inr (\<lparr>Created = [], Updated = [], Unchanged = [], Deleted = [], Errors = []\<rparr>,
             \<lparr>Created = [], Updated = [], Unchanged = [], Deleted = [],
                Errors = [''Failed to read P1: failed to parse metadata'']\<rparr>,
             Some \<lparr>Created = [], Updated = [], Unchanged = [], Deleted = [''P1/x''],
                     Errors = []\<rparr>),
        (\<lparr>rStrings = [],
           rBinaries = [\<lparr>Pid = ''P2'', ParamID = ''y'', Value = ''<b/>'', ContentType = ''xml''\<rparr>]\<rparr>,
         [GetStringParametersCall ''Pid,Id'', GetBinaryParametersCall ''Pid,Id'',
          DeleteBinaryParameterCall ''P1'' ''x'']))"
  by code_simp

end
